theory Spec2Isabelle
  imports Complex_Main "HOL-Library.Char_ord" "HOL-Library.List_Lexorder"
begin

section \<open>JavaScript values read by the request handler\<close>

text \<open>
  The handler verified here is the \<^verbatim>\<open>fetch\<close> function of the Cloudflare worker in
  \<^verbatim>\<open>src/unnamed/part_008\<close> (the variant with input validation, pagination and date
  filters), together with the schema of \<^verbatim>\<open>src/unnamed/part_010\<close>. The earlier draft of
  the handler in \<^verbatim>\<open>src/worker/index.ts\<close> (no format checks, no pagination, another
  token API) is not modelled.

  A JavaScript string is a \<^typ>\<open>string\<close>: one \<^typ>\<open>char\<close> stands for one code unit
  below 256, so \<^const>\<open>length\<close> is \<^verbatim>\<open>.length\<close> and the order of
  \<^verbatim>\<open>HOL-Library.List_Lexorder\<close> is the byte order SQLite compares TEXT with.
  Code units from 256 on are outside the model. A number of a JSON body is a
  \<^typ>\<open>real\<close> (\<^verbatim>\<open>JSON.parse\<close> never yields NaN); for these numbers the rounding of IEEE
  doubles and their overflow to infinity are not modelled. A parsed object is the list
  of its members, each key once.
\<close>

datatype json =
    JNull
  | JBool bool
  | JNum real
  | JStr string
  | JArr "json list"
  | JObj "(string \<times> json) list"

text \<open>
  \<^verbatim>\<open>data.key\<close> for the keys the handler reads (email, password, date, amount, type,
  description, category): the member of a parsed object, \<^verbatim>\<open>undefined\<close>
  (\<^const>\<open>None\<close>) when the member is missing or \<^verbatim>\<open>data\<close> is a primitive or an array.
  The handler never reads a property of \<^verbatim>\<open>null\<close>: every read is behind \<^verbatim>\<open>!data\<close>.
\<close>

fun member :: "json \<Rightarrow> string \<Rightarrow> json option" where
  "member (JObj kvs) k = map_of kvs k"
| "member _ k = None"

text \<open>JavaScript truthiness (\<^verbatim>\<open>!x\<close> is its negation).\<close>

fun truthy :: "json \<Rightarrow> bool" where
  "truthy JNull = False"
| "truthy (JBool b) = b"
| "truthy (JNum x) = (x \<noteq> 0)"
| "truthy (JStr s) = (s \<noteq> [])"
| "truthy (JArr xs) = True"
| "truthy (JObj kvs) = True"

text \<open>\<^verbatim>\<open>x || null\<close> on a possibly undefined value.\<close>

fun or_null :: "json option \<Rightarrow> json" where
  "or_null None = JNull"
| "or_null (Some v) = (if truthy v then v else JNull)"

text \<open>
  White space as \<^verbatim>\<open>\s\<close>, \<^verbatim>\<open>String.prototype.trim\<close> and \<^verbatim>\<open>parseInt\<close> see it, among
  the code units below 256: tab, line feed, vertical tab, form feed, carriage return,
  space and no-break space.
\<close>

definition is_space :: "char \<Rightarrow> bool" where
  "is_space c = (c \<in> set [CHR 0x09, CHR 0x0A, CHR 0x0B, CHR 0x0C, CHR 0x0D, CHR 0x20, CHR 0xA0])"

definition trim :: "string \<Rightarrow> string" where
  "trim s = rev (dropWhile is_space (rev (dropWhile is_space s)))"

definition startsWith :: "string \<Rightarrow> string \<Rightarrow> bool" where
  "startsWith s p = (take (length p) s = p)"

subsection \<open>Regular expressions\<close>

text \<open>
  \<^verbatim>\<open>re.test(s)\<close> for an anchored pattern \<^verbatim>\<open>/^...$/\<close> decides whether the whole
  string is in the pattern's language; the matcher below decides it by taking the
  residual pattern after each character.
\<close>

datatype regex =
    Never
  | Empty
  | Char_in "char \<Rightarrow> bool"
  | Then regex regex
  | Either regex regex
  | Many regex

fun accepts_empty :: "regex \<Rightarrow> bool" where
  "accepts_empty Never = False"
| "accepts_empty Empty = True"
| "accepts_empty (Char_in P) = False"
| "accepts_empty (Then r s) = (accepts_empty r \<and> accepts_empty s)"
| "accepts_empty (Either r s) = (accepts_empty r \<or> accepts_empty s)"
| "accepts_empty (Many r) = True"

fun residual :: "char \<Rightarrow> regex \<Rightarrow> regex" where
  "residual c Never = Never"
| "residual c Empty = Never"
| "residual c (Char_in P) = (if P c then Empty else Never)"
| "residual c (Then r s) =
     (if accepts_empty r then Either (Then (residual c r) s) (residual c s)
      else Then (residual c r) s)"
| "residual c (Either r s) = Either (residual c r) (residual c s)"
| "residual c (Many r) = Then (residual c r) (Many r)"

fun regex_test :: "regex \<Rightarrow> string \<Rightarrow> bool" where
  "regex_test r [] = accepts_empty r"
| "regex_test r (c # cs) = regex_test (residual c r) cs"

definition one_or_more :: "regex \<Rightarrow> regex" where
  "one_or_more r = Then r (Many r)"

definition literal :: "char \<Rightarrow> regex" where
  "literal c = Char_in (\<lambda>d. d = c)"

subsection \<open>parseInt\<close>

text \<open>
  The numbers \<^verbatim>\<open>parseInt\<close> returns: NaN, a double whose value is an integer, or an
  infinity.
\<close>

datatype jsnum = NaN | Finite int | Infinity | NegInfinity

text \<open>
  The double nearest to a natural number, ties to the even significand of 53 bits;
  \<^const>\<open>None\<close> when the number rounds beyond the largest double, to infinity. Below
  \<open>2 ^ 53\<close> every natural number is a double.
\<close>

fun bit_length :: "nat \<Rightarrow> nat" where
  "bit_length n = (if n = 0 then 0 else Suc (bit_length (n div 2)))"

definition to_double :: "nat \<Rightarrow> nat option" where
  "to_double n =
     (if n < 2 ^ 53 then Some n
      else let shift = bit_length n - 53;
               q = n div 2 ^ shift;
               r = n mod 2 ^ shift;
               half = 2 ^ (shift - 1);
               v = (if half < r \<or> (r = half \<and> odd q) then q + 1 else q) * 2 ^ shift
           in if 2 ^ 1024 \<le> v then None else Some v)"

text \<open>
  \<^verbatim>\<open>parseInt(s, 10)\<close>: leading white space is skipped, one sign is read, then the
  longest run of decimal digits; without a digit the result is NaN. What follows the
  digits is ignored. The result is the double nearest to the integer the digits
  denote (correctly rounded, as the worker's engine computes it), with the sign.
\<close>

definition is_digit :: "char \<Rightarrow> bool" where
  "is_digit c = (CHR ''0'' \<le> c \<and> c \<le> CHR ''9'')"

definition digit_val :: "char \<Rightarrow> nat" where
  "digit_val c = of_char c - of_char CHR ''0''"

definition digits_val :: "string \<Rightarrow> nat" where
  "digits_val ds = foldl (\<lambda>a c. 10 * a + digit_val c) 0 ds"

definition parseInt :: "string \<Rightarrow> jsnum" where
  "parseInt s =
     (let t = dropWhile is_space s;
          negative = (t \<noteq> [] \<and> hd t = CHR ''-'');
          u = (if t \<noteq> [] \<and> (hd t = CHR ''-'' \<or> hd t = CHR ''+'') then tl t else t);
          z = takeWhile is_digit u
      in if z = [] then NaN
         else case to_double (digits_val z) of
                None \<Rightarrow> (if negative then NegInfinity else Infinity)
              | Some v \<Rightarrow> Finite ((if negative then - 1 else 1) * int v))"

text \<open>\<^verbatim>\<open>Math.min(x, 100)\<close>, NaN when \<^verbatim>\<open>x\<close> is NaN.\<close>

fun math_min :: "jsnum \<Rightarrow> int \<Rightarrow> jsnum" where
  "math_min NaN b = NaN"
| "math_min (Finite a) b = Finite (min a b)"
| "math_min Infinity b = Finite b"
| "math_min NegInfinity b = NegInfinity"

text \<open>The integer a number is, when it is one.\<close>

fun int_of :: "jsnum \<Rightarrow> int" where
  "int_of (Finite i) = i"
| "int_of _ = 0"

section \<open>The password hasher\<close>

text \<open>
  Modelled from the spec: the Password Hasher (\<^verbatim>\<open>bcryptjs\<close>, a dependency that is not
  under src/). A hash is text the handler stores and never inspects, so it is kept
  symbolic: the cost factor, the salt and the plaintext it was made from, or text that
  is no hash.
\<close>

datatype pwhash = Bcrypt nat string string | Not_a_hash string

text \<open>
  Modelled from the spec: \<^verbatim>\<open>hash(plaintext)\<close> of the Password Hasher, as
  \<^verbatim>\<open>bcrypt.hash(password, 10)\<close> calls it, with the random salt it draws as an argument:
  two calls with different salts give different hashes.
\<close>

definition bcrypt_hash :: "string \<Rightarrow> nat \<Rightarrow> string \<Rightarrow> pwhash" where
  "bcrypt_hash password rounds salt_bytes = Bcrypt rounds salt_bytes password"

text \<open>
  Modelled from the spec: \<^verbatim>\<open>verify(plaintext, hash)\<close> of the Password Hasher
  (\<^verbatim>\<open>bcrypt.compare\<close>): true exactly for the plaintext the hash was made from, false
  on text that is no hash.
\<close>

fun bcrypt_compare :: "string \<Rightarrow> pwhash \<Rightarrow> bool" where
  "bcrypt_compare password (Bcrypt rounds salt_bytes plain) = (plain = password)"
| "bcrypt_compare password (Not_a_hash s) = False"

section \<open>The D1 database\<close>

text \<open>
  The tables of \<^verbatim>\<open>src/unnamed/part_010\<close>, rows in rowid order:
  \<^verbatim>\<open>users(id INTEGER PRIMARY KEY AUTOINCREMENT, email TEXT UNIQUE NOT NULL,
  password TEXT NOT NULL, created_at DATETIME DEFAULT CURRENT_TIMESTAMP)\<close> and
  \<^verbatim>\<open>transactions(id INTEGER PRIMARY KEY AUTOINCREMENT, user_id INTEGER NOT NULL,
  date TEXT NOT NULL, description TEXT, category TEXT, amount REAL NOT NULL,
  type TEXT NOT NULL, created_at ..., FOREIGN KEY (user_id) REFERENCES users(id))\<close>,
  with the index \<^verbatim>\<open>idx_transactions_user_date ON transactions (user_id, date DESC)\<close>.
  Both tables have columns \<^verbatim>\<open>id\<close> and \<^verbatim>\<open>created_at\<close>, so the fields carry the
  table's initial.
\<close>

datatype error = D1_ERROR string | D1_TYPE_ERROR string

text \<open>A value D1 stores in a column; a BLOB is the list of numbers it was bound from.\<close>

datatype sqlval = SqlNull | SqlNum real | SqlText string | SqlBlob "real list"

record user_row =
  u_id :: nat
  u_email :: string
  u_password :: pwhash
  u_created_at :: string

record txn_row =
  t_id :: nat
  t_user_id :: nat
  t_date :: string
  t_description :: sqlval
  t_category :: sqlval
  t_amount :: real
  t_type :: string
  t_created_at :: string

text \<open>
  \<^verbatim>\<open>users_seq\<close> and \<^verbatim>\<open>transactions_seq\<close> are the AUTOINCREMENT counters
  (\<^verbatim>\<open>sqlite_sequence\<close>): a new rowid is one more than the counter and every rowid
  in the table.
\<close>

record d1 =
  users :: "user_row list"
  users_seq :: nat
  transactions :: "txn_row list"
  transactions_seq :: nat

definition next_rowid :: "nat list \<Rightarrow> nat \<Rightarrow> nat" where
  "next_rowid ids seq = Suc (fold max ids seq)"

text \<open>
  \<^verbatim>\<open>prepare(...).bind(v)\<close> accepts a string, a number, a boolean (bound as 1 or 0),
  \<^verbatim>\<open>null\<close> and an array of numbers from 0 to 255 (a BLOB); any other value throws
  \<^verbatim>\<open>D1_TYPE_ERROR\<close>.
\<close>

fun byte_of :: "json \<Rightarrow> real option" where
  "byte_of (JNum x) = (if 0 \<le> x \<and> x < 256 then Some x else None)"
| "byte_of _ = None"

fun d1_bind :: "json \<Rightarrow> error + sqlval" where
  "d1_bind JNull = Inr SqlNull"
| "d1_bind (JBool b) = Inr (SqlNum (if b then 1 else 0))"
| "d1_bind (JNum x) = Inr (SqlNum x)"
| "d1_bind (JStr s) = Inr (SqlText s)"
| "d1_bind (JArr xs) =
     (if None \<in> set (map byte_of xs) then Inl (D1_TYPE_ERROR ''object'')
      else Inr (SqlBlob (map (\<lambda>x. the (byte_of x)) xs)))"
| "d1_bind (JObj kvs) = Inl (D1_TYPE_ERROR ''object'')"

text \<open>\<^verbatim>\<open>SELECT ... FROM users WHERE email = ?\<close> with \<^verbatim>\<open>.first()\<close>.\<close>

definition users_first_by_email :: "d1 \<Rightarrow> string \<Rightarrow> user_row option" where
  "users_first_by_email db e = find (\<lambda>u. u_email u = e) (users db)"

text \<open>
  \<^verbatim>\<open>INSERT INTO users (email, password) VALUES (?, ?)\<close>: the UNIQUE constraint on
  \<^verbatim>\<open>email\<close> makes the statement throw when a row has the email.
\<close>

definition users_insert :: "d1 \<Rightarrow> string \<Rightarrow> pwhash \<Rightarrow> string \<Rightarrow> error + d1" where
  "users_insert db e h ts =
     (if e \<in> set (map u_email (users db))
      then Inl (D1_ERROR ''UNIQUE constraint failed: users.email'')
      else let i = next_rowid (map u_id (users db)) (users_seq db)
           in Inr (db\<lparr>users := users db @ [\<lparr>u_id = i, u_email = e, u_password = h, u_created_at = ts\<rparr>],
                     users_seq := i\<rparr>))"

text \<open>
  The TEXT affinity of the columns \<^verbatim>\<open>description\<close> and \<^verbatim>\<open>category\<close>: a number is
  stored as its text, which \<^verbatim>\<open>number_text\<close> gives (the store's rendering, an argument);
  NULL, text and a BLOB are stored as they are.
\<close>

fun text_affinity :: "(real \<Rightarrow> string) \<Rightarrow> sqlval \<Rightarrow> sqlval" where
  "text_affinity number_text (SqlNum x) = SqlText (number_text x)"
| "text_affinity number_text v = v"

text \<open>
  \<^verbatim>\<open>INSERT INTO transactions (user_id, date, description, category, amount, type)
  VALUES (?, ?, ?, ?, ?, ?)\<close>; D1 enforces the foreign key.
\<close>

definition transactions_insert ::
  "(real \<Rightarrow> string) \<Rightarrow> d1 \<Rightarrow> nat \<Rightarrow> string \<Rightarrow> sqlval \<Rightarrow> sqlval \<Rightarrow> real \<Rightarrow> string \<Rightarrow> string
     \<Rightarrow> error + d1" where
  "transactions_insert number_text db uid dt descr cat amt ty ts =
     (if uid \<notin> set (map u_id (users db))
      then Inl (D1_ERROR ''FOREIGN KEY constraint failed'')
      else let i = next_rowid (map t_id (transactions db)) (transactions_seq db)
           in Inr (db\<lparr>transactions := transactions db @
                       [\<lparr>t_id = i, t_user_id = uid, t_date = dt,
                         t_description = text_affinity number_text descr,
                         t_category = text_affinity number_text cat,
                         t_amount = amt, t_type = ty, t_created_at = ts\<rparr>],
                     transactions_seq := i\<rparr>))"

text \<open>
  \<^verbatim>\<open>ORDER BY date DESC\<close> names no second key. The rows come from the index
  \<^verbatim>\<open>(user_id, date DESC)\<close>, whose entries with one user and one date stand in rowid
  order: rows of equal date keep the table's order.
\<close>

definition order_by_date_desc :: "txn_row list \<Rightarrow> txn_row list" where
  "order_by_date_desc rows = rev (sort_key t_date (rev rows))"

text \<open>
  The number bound to LIMIT or OFFSET is a double, and SQLite must convert it to an
  integer of 64 bits without loss: it takes the doubles strictly between \<open>- (2 ^ 63)\<close>
  and \<open>2 ^ 63\<close>; with NaN, an infinity, \<open>- (2 ^ 63)\<close> or a double from \<open>2 ^ 63\<close> on
  the statement throws.
\<close>

definition sql_integer :: "jsnum \<Rightarrow> bool" where
  "sql_integer v = (case v of Finite i \<Rightarrow> - (2 ^ 63) < i \<and> i < 2 ^ 63 | _ \<Rightarrow> False)"

text \<open>A negative LIMIT is no limit; a negative OFFSET is no offset.\<close>

definition limit_offset :: "int \<Rightarrow> int \<Rightarrow> 'a list \<Rightarrow> 'a list" where
  "limit_offset l off rows =
     (if l < 0 then drop (nat off) rows else take (nat l) (drop (nat off) rows))"

definition date_from :: "string option \<Rightarrow> txn_row \<Rightarrow> bool" where
  "date_from startDate t = (case startDate of None \<Rightarrow> True | Some s \<Rightarrow> s \<le> t_date t)"

definition date_until :: "string option \<Rightarrow> txn_row \<Rightarrow> bool" where
  "date_until endDate t = (case endDate of None \<Rightarrow> True | Some e \<Rightarrow> t_date t \<le> e)"

text \<open>
  \<^verbatim>\<open>SELECT * FROM transactions WHERE user_id = ? [AND date >= ?] [AND date <= ?]
  ORDER BY date DESC LIMIT ? OFFSET ?\<close> with \<^verbatim>\<open>.all()\<close>; a date bound is \<^const>\<open>None\<close>
  when the handler leaves its condition out of the query.
\<close>

definition transactions_all ::
  "d1 \<Rightarrow> nat \<Rightarrow> string option \<Rightarrow> string option \<Rightarrow> jsnum \<Rightarrow> jsnum
     \<Rightarrow> error + txn_row list" where
  "transactions_all db uid startDate endDate l off =
     (if \<not> sql_integer l \<or> \<not> sql_integer off then Inl (D1_ERROR ''datatype mismatch'')
      else Inr (limit_offset (int_of l) (int_of off)
             (order_by_date_desc
               (filter (\<lambda>t. t_user_id t = uid \<and> date_from startDate t \<and> date_until endDate t)
                  (transactions db)))))"

section \<open>The token service\<close>

text \<open>
  Modelled from the spec: the Token Service (\<^verbatim>\<open>@tsndr/cloudflare-worker-jwt\<close>, a
  dependency that is not under src/). A token is signed, self-contained text that
  embeds the claims and an absolute expiry in seconds; \<^verbatim>\<open>verify\<close> fails with
  \<^verbatim>\<open>Invalid\<close> when the structure is malformed or the signature is not the one the
  key gives, and with \<^verbatim>\<open>Expired\<close> when the current time is at or past the expiry.
  The text is the claims (numbers in binary, lowest bit first, the email behind its
  length) followed by a tag of the key and the claims; \<^verbatim>\<open>verify\<close> recomputes the
  token from the claims it reads and the key.
\<close>

record payload =
  p_id :: nat
  p_email :: string
  p_exp :: nat

datatype auth_error = Invalid | Expired

text \<open>Modelled from the spec: a number of the claims as text, and back.\<close>

fun bits :: "nat \<Rightarrow> string" where
  "bits n = (if n = 0 then [] else (if even n then CHR ''0'' else CHR ''1'') # bits (n div 2))"

fun unbits :: "string \<Rightarrow> nat option" where
  "unbits [] = Some 0"
| "unbits (c # cs) =
     (if c = CHR ''0'' then map_option (\<lambda>n. 2 * n) (unbits cs)
      else if c = CHR ''1'' then map_option (\<lambda>n. 2 * n + 1) (unbits cs)
      else None)"

text \<open>Modelled from the spec: the text up to the first dot, and the text after it.\<close>

definition part :: "string \<Rightarrow> string" where
  "part s = takeWhile (\<lambda>c. c \<noteq> CHR ''.'') s"

definition after_part :: "string \<Rightarrow> string" where
  "after_part s = drop (Suc (length (part s))) s"

text \<open>Modelled from the spec: the text of the claims a token embeds.\<close>

definition claims_text :: "payload \<Rightarrow> string" where
  "claims_text p =
     bits (p_id p) @ ''.'' @ bits (p_exp p) @ ''.'' @ bits (length (p_email p)) @ ''.'' @ p_email p"

text \<open>
  Modelled from the spec: \<^verbatim>\<open>issue\<close> of the Token Service, as
  \<^verbatim>\<open>jwt.sign({id, email, exp}, secret)\<close> calls it with the absolute expiry among the
  claims.
\<close>

definition jwt_sign :: "payload \<Rightarrow> string \<Rightarrow> string" where
  "jwt_sign p secret = claims_text p @ ''.'' @ secret @ ''.'' @ claims_text p"

text \<open>
  Modelled from the spec: \<^verbatim>\<open>jwt.decode(token)\<close>, the claims a token embeds, read
  without checking the signature; \<^const>\<open>None\<close> when the structure is malformed.
\<close>

definition jwt_decode :: "string \<Rightarrow> payload option" where
  "jwt_decode token =
     (let r1 = after_part token; r2 = after_part r1; r3 = after_part r2
      in case (unbits (part token), unbits (part r1), unbits (part r2)) of
           (Some i, Some e, Some n) \<Rightarrow>
             if n \<le> length r3 then Some \<lparr>p_id = i, p_email = take n r3, p_exp = e\<rparr> else None
         | _ \<Rightarrow> None)"

text \<open>
  Modelled from the spec: \<^verbatim>\<open>verify(token)\<close> of the Token Service at the time
  \<^verbatim>\<open>now_ms\<close> (milliseconds), with the key as an argument.
\<close>

definition token_verify :: "nat \<Rightarrow> string \<Rightarrow> string \<Rightarrow> auth_error + payload" where
  "token_verify now_ms token secret =
     (case jwt_decode token of
        None \<Rightarrow> Inl Invalid
      | Some p \<Rightarrow>
          if token \<noteq> jwt_sign p secret then Inl Invalid
          else if p_exp p * 1000 \<le> now_ms then Inl Expired
          else Inr p)"

text \<open>
  Modelled from the spec: \<^verbatim>\<open>jwt.verify(token, secret)\<close> as the handler calls it, a
  boolean that is true when \<^verbatim>\<open>verify\<close> returns claims.
\<close>

definition jwt_verify :: "nat \<Rightarrow> string \<Rightarrow> string \<Rightarrow> bool" where
  "jwt_verify now_ms token secret = (case token_verify now_ms token secret of Inl e \<Rightarrow> False | Inr p \<Rightarrow> True)"

section \<open>The request handler\<close>

text \<open>
  A request as \<^verbatim>\<open>fetch\<close> reads it: \<^verbatim>\<open>request.method\<close>, \<^verbatim>\<open>url.pathname\<close>,
  \<^verbatim>\<open>url.searchParams\<close>, \<^verbatim>\<open>request.headers.get('Authorization')\<close> (\<^const>\<open>None\<close> is
  \<^verbatim>\<open>null\<close>) and the outcome of \<^verbatim>\<open>request.json()\<close> (\<^const>\<open>None\<close> when it rejects
  because the body is not JSON).
\<close>

record request =
  rq_method :: string
  rq_path :: string
  rq_searchParams :: "(string \<times> string) list"
  rq_authorization :: "string option"
  rq_json :: "json option"

record env =
  IH_DB :: d1
  JWT_SECRET :: string

text \<open>
  What a request reads from outside: \<^verbatim>\<open>Date.now()\<close> in milliseconds, the random
  salt \<^verbatim>\<open>bcrypt.hash\<close> draws, the text of the store's \<^verbatim>\<open>CURRENT_TIMESTAMP\<close>, and the
  text the store renders a number as when a TEXT column takes it.
\<close>

record runtime =
  now :: nat
  salt :: string
  current_timestamp :: string
  number_text :: "real \<Rightarrow> string"

record response =
  status :: nat
  headers :: "(string \<times> string) list"
  body :: json

text \<open>
  The outcome of \<^verbatim>\<open>fetch\<close>: \<^const>\<open>Inr\<close> the response, \<^const>\<open>Inl\<close> the exception a
  store call threw (the handler has no \<^verbatim>\<open>try\<close> around them, so the promise rejects).
\<close>

type_synonym outcome = "error + response"

definition parseJSON :: "request \<Rightarrow> json" where
  "parseJSON req = (case rq_json req of None \<Rightarrow> JNull | Some v \<Rightarrow> v)"

definition createJsonResponse :: "json \<Rightarrow> nat \<Rightarrow> response" where
  "createJsonResponse data st =
     \<lparr>status = st, headers = [(''Content-Type'', ''application/json'')], body = data\<rparr>"

definition searchParams_get :: "request \<Rightarrow> string \<Rightarrow> string option" where
  "searchParams_get req k = map_of (rq_searchParams req) k"

text \<open>\<^verbatim>\<open>x || d\<close> on a string that may be \<^verbatim>\<open>null\<close>.\<close>

fun or_default :: "string option \<Rightarrow> string \<Rightarrow> string" where
  "or_default None d = d"
| "or_default (Some s) d = (if s = [] then d else s)"

text \<open>\<^verbatim>\<open>if (x)\<close> on a string that may be \<^verbatim>\<open>null\<close>: the bound the query gets.\<close>

fun given :: "string option \<Rightarrow> string option" where
  "given None = None"
| "given (Some s) = (if s = [] then None else Some s)"

definition verifyToken :: "runtime \<Rightarrow> string \<Rightarrow> env \<Rightarrow> payload option" where
  "verifyToken rt authHeader env =
     (if authHeader = [] \<or> \<not> startsWith authHeader ''Bearer '' then None
      else let token = drop 7 authHeader
           in if \<not> jwt_verify (now rt) token (JWT_SECRET env) then None
              else jwt_decode token)"

definition address_char :: regex where
  "address_char = Char_in (\<lambda>c. \<not> is_space c \<and> c \<noteq> CHR ''@'')"

text \<open>\<^verbatim>\<open>/^[^\s@]+@[^\s@]+\.[^\s@]+$/\<close>\<close>

definition email_re :: regex where
  "email_re =
     Then (one_or_more address_char)
       (Then (literal CHR ''@'')
          (Then (one_or_more address_char)
             (Then (literal CHR ''.'') (one_or_more address_char))))"

fun validateEmail :: "json option \<Rightarrow> bool" where
  "validateEmail (Some (JStr s)) = regex_test email_re s"
| "validateEmail _ = False"

fun validatePassword :: "json option \<Rightarrow> bool" where
  "validatePassword (Some (JStr s)) = (6 \<le> length s)"
| "validatePassword _ = False"

fun nonblank_string :: "json option \<Rightarrow> bool" where
  "nonblank_string (Some (JStr s)) = (trim s \<noteq> [])"
| "nonblank_string _ = False"

fun is_number :: "json option \<Rightarrow> bool" where
  "is_number (Some (JNum x)) = True"
| "is_number _ = False"

definition validateTransaction :: "json \<Rightarrow> bool" where
  "validateTransaction data =
     (if \<not> truthy data then False
      else if \<not> nonblank_string (member data ''date'') then False
      else if \<not> is_number (member data ''amount'') then False
      else if \<not> nonblank_string (member data ''type'') then False
      else True)"

text \<open>The string or number a validated member holds.\<close>

fun string_of :: "json option \<Rightarrow> string" where
  "string_of (Some (JStr s)) = s"
| "string_of _ = []"

fun number_of :: "json option \<Rightarrow> real" where
  "number_of (Some (JNum x)) = x"
| "number_of _ = 0"

definition error_body :: "string \<Rightarrow> json" where
  "error_body m = JObj [(''error'', JStr m)]"

definition message_body :: "string \<Rightarrow> json" where
  "message_body m = JObj [(''message'', JStr m)]"

subsection \<open>Signup\<close>

text \<open>
  The handler awaits the SELECT and then the INSERT; another request can run between
  the two. \<^verbatim>\<open>signup_lookup\<close> is the handler up to the SELECT's result,
  \<^verbatim>\<open>signup_insert\<close> is the rest.
\<close>

datatype signup_step = Respond response | Insert string string

definition signup_lookup :: "request \<Rightarrow> env \<Rightarrow> signup_step" where
  "signup_lookup req env =
     (let data = parseJSON req
      in if \<not> truthy data \<or> \<not> validateEmail (member data ''email'')
              \<or> \<not> validatePassword (member data ''password'')
         then Respond (createJsonResponse (error_body ''Invalid email or password'') 400)
         else case users_first_by_email (IH_DB env) (string_of (member data ''email'')) of
                Some existing \<Rightarrow>
                  Respond (createJsonResponse (error_body ''Email already registered'') 409)
              | None \<Rightarrow>
                  Insert (string_of (member data ''email'')) (string_of (member data ''password'')))"

definition signup_insert :: "runtime \<Rightarrow> string \<Rightarrow> string \<Rightarrow> env \<Rightarrow> outcome \<times> env" where
  "signup_insert rt e pw env =
     (let hashedPassword = bcrypt_hash pw 10 (salt rt)
      in case users_insert (IH_DB env) e hashedPassword (current_timestamp rt) of
           Inl err \<Rightarrow> (Inl err, env)
         | Inr db \<Rightarrow> (Inr (createJsonResponse (message_body ''User created'') 201),
                      env\<lparr>IH_DB := db\<rparr>))"

definition signup :: "runtime \<Rightarrow> request \<Rightarrow> env \<Rightarrow> outcome \<times> env" where
  "signup rt req env =
     (case signup_lookup req env of
        Respond r \<Rightarrow> (Inr r, env)
      | Insert e pw \<Rightarrow> signup_insert rt e pw env)"

subsection \<open>Login\<close>

definition login :: "runtime \<Rightarrow> request \<Rightarrow> env \<Rightarrow> outcome \<times> env" where
  "login rt req env =
     (let data = parseJSON req
      in if \<not> truthy data \<or> \<not> validateEmail (member data ''email'')
              \<or> \<not> validatePassword (member data ''password'')
         then (Inr (createJsonResponse (error_body ''Invalid email or password'') 400), env)
         else case users_first_by_email (IH_DB env) (string_of (member data ''email'')) of
                None \<Rightarrow> (Inr (createJsonResponse (error_body ''Invalid credentials'') 401), env)
              | Some user \<Rightarrow>
                  if \<not> bcrypt_compare (string_of (member data ''password'')) (u_password user)
                  then (Inr (createJsonResponse (error_body ''Invalid credentials'') 401), env)
                  else let exp = now rt div 1000 + 7 * 24 * 60 * 60;
                           token = jwt_sign \<lparr>p_id = u_id user, p_email = u_email user, p_exp = exp\<rparr>
                                     (JWT_SECRET env)
                       in (Inr (createJsonResponse (JObj [(''token'', JStr token)]) 200), env))"

subsection \<open>Protected routes\<close>

definition metrics :: "outcome" where
  "metrics =
     Inr (createJsonResponse
            (JObj [(''totalRevenue'', JNum 100000), (''monthlyGrowth'', JNum 10.5),
                   (''cashFlow'', JNum 50000)]) 200)"

fun sql_json :: "sqlval \<Rightarrow> json" where
  "sql_json SqlNull = JNull"
| "sql_json (SqlNum x) = JNum x"
| "sql_json (SqlText s) = JStr s"
| "sql_json (SqlBlob bs) = JArr (map JNum bs)"

text \<open>A row of \<^verbatim>\<open>SELECT * FROM transactions\<close> as the object D1 returns.\<close>

definition row_json :: "txn_row \<Rightarrow> json" where
  "row_json t =
     JObj [(''id'', JNum (real (t_id t))), (''user_id'', JNum (real (t_user_id t))),
           (''date'', JStr (t_date t)), (''description'', sql_json (t_description t)),
           (''category'', sql_json (t_category t)), (''amount'', JNum (t_amount t)),
           (''type'', JStr (t_type t)), (''created_at'', JStr (t_created_at t))]"

definition transactions_body :: "txn_row list \<Rightarrow> int \<Rightarrow> int \<Rightarrow> json" where
  "transactions_body rows l off =
     JObj [(''transactions'', JArr (map row_json rows)),
           (''pagination'',
              JObj [(''limit'', JNum (of_int l)), (''offset'', JNum (of_int off)),
                    (''count'', JNum (real (length rows)))])]"

text \<open>The handler's \<^verbatim>\<open>limit\<close> and \<^verbatim>\<open>offset\<close> constants.\<close>

definition limit_of :: "request \<Rightarrow> jsnum" where
  "limit_of req = math_min (parseInt (or_default (searchParams_get req ''limit'') ''50'')) 100"

definition offset_of :: "request \<Rightarrow> jsnum" where
  "offset_of req = parseInt (or_default (searchParams_get req ''offset'') ''0'')"

definition list_transactions :: "request \<Rightarrow> payload \<Rightarrow> env \<Rightarrow> outcome" where
  "list_transactions req decoded env =
     (let startDate = searchParams_get req ''startDate'';
          endDate = searchParams_get req ''endDate''
      in case transactions_all (IH_DB env) (p_id decoded) (given startDate) (given endDate)
                (limit_of req) (offset_of req) of
           Inl err \<Rightarrow> Inl err
         | Inr results \<Rightarrow>
             Inr (createJsonResponse
                    (transactions_body results (int_of (limit_of req)) (int_of (offset_of req))) 200))"

definition create_transaction :: "runtime \<Rightarrow> request \<Rightarrow> payload \<Rightarrow> env \<Rightarrow> outcome \<times> env" where
  "create_transaction rt req decoded env =
     (let data = parseJSON req
      in if \<not> validateTransaction data
         then (Inr (createJsonResponse (error_body ''Invalid transaction data'') 400), env)
         else case d1_bind (or_null (member data ''description'')) of
                Inl err \<Rightarrow> (Inl err, env)
              | Inr descr \<Rightarrow>
                 (case d1_bind (or_null (member data ''category'')) of
                    Inl err \<Rightarrow> (Inl err, env)
                  | Inr cat \<Rightarrow>
                     (case transactions_insert (number_text rt) (IH_DB env) (p_id decoded)
                             (string_of (member data ''date'')) descr cat
                             (number_of (member data ''amount''))
                             (string_of (member data ''type'')) (current_timestamp rt) of
                        Inl err \<Rightarrow> (Inl err, env)
                      | Inr db \<Rightarrow>
                          (Inr (createJsonResponse (message_body ''Transaction added'') 201),
                           env\<lparr>IH_DB := db\<rparr>))))"

subsection \<open>fetch\<close>

definition fetch :: "runtime \<Rightarrow> request \<Rightarrow> env \<Rightarrow> outcome \<times> env" where
  "fetch rt req env =
     (if rq_path req = ''/api/auth/signup'' \<and> rq_method req = ''POST'' then signup rt req env
      else if rq_path req = ''/api/auth/login'' \<and> rq_method req = ''POST'' then login rt req env
      else case verifyToken rt (or_default (rq_authorization req) []) env of
             None \<Rightarrow> (Inr (createJsonResponse (error_body ''Unauthorized'') 401), env)
           | Some decoded \<Rightarrow>
               if rq_path req = ''/api/metrics'' \<and> rq_method req = ''GET'' then (metrics, env)
               else if rq_path req = ''/api/transactions'' \<and> rq_method req = ''GET''
                 then (list_transactions req decoded env, env)
               else if rq_path req = ''/api/transactions'' \<and> rq_method req = ''POST''
                 then create_transaction rt req decoded env
               else (Inr (createJsonResponse (error_body ''Not found'') 404), env))"

subsection \<open>Two signups in flight\<close>

text \<open>
  Two signup requests \<^verbatim>\<open>A\<close> and \<^verbatim>\<open>B\<close> handled at once: each is waiting for its
  SELECT, or holds the email and password it is about to insert, or is done. A schedule
  says whose store call runs next; \<^verbatim>\<open>interleavings\<close> lists the six orders of the
  four calls.
\<close>

datatype flight = Waiting request | Inserting string string | Done outcome

definition advance :: "runtime \<Rightarrow> flight \<Rightarrow> env \<Rightarrow> flight \<times> env" where
  "advance rt f env =
     (case f of
        Waiting req \<Rightarrow>
          (case signup_lookup req env of
             Respond r \<Rightarrow> (Done (Inr r), env)
           | Insert e pw \<Rightarrow> (Inserting e pw, env))
      | Inserting e pw \<Rightarrow> (Done (fst (signup_insert rt e pw env)), snd (signup_insert rt e pw env))
      | Done out \<Rightarrow> (Done out, env))"

datatype who = A | B

fun run :: "runtime \<Rightarrow> runtime \<Rightarrow> who list \<Rightarrow> flight \<times> flight \<times> env \<Rightarrow> flight \<times> flight \<times> env" where
  "run rtA rtB [] st = st"
| "run rtA rtB (A # ws) (fa, fb, env) =
     run rtA rtB ws (fst (advance rtA fa env), fb, snd (advance rtA fa env))"
| "run rtA rtB (B # ws) (fa, fb, env) =
     run rtA rtB ws (fa, fst (advance rtB fb env), snd (advance rtB fb env))"

definition interleavings :: "who list list" where
  "interleavings =
     [[A, A, B, B], [A, B, A, B], [A, B, B, A], [B, A, A, B], [B, A, B, A], [B, B, A, A]]"

definition rows_with_email :: "string \<Rightarrow> env \<Rightarrow> nat" where
  "rows_with_email e env = length (filter (\<lambda>u. u_email u = e) (users (IH_DB env)))"

section \<open>Example data\<close>

text \<open>
  The runtime at time \<open>t\<close>. No example binds a number to a TEXT column, so the
  rendering of numbers is left trivial.
\<close>

definition clock :: "nat \<Rightarrow> runtime" where
  "clock t =
     \<lparr>now = t, salt = ''salt'', current_timestamp = ''2025-09-10 12:00:00'',
      number_text = (\<lambda>x. [])\<rparr>"

definition credentials :: "string \<Rightarrow> string \<Rightarrow> json" where
  "credentials e pw = JObj [(''email'', JStr e), (''password'', JStr pw)]"

definition post_request :: "string \<Rightarrow> string option \<Rightarrow> json option \<Rightarrow> request" where
  "post_request p auth b =
     \<lparr>rq_method = ''POST'', rq_path = p, rq_searchParams = [], rq_authorization = auth,
      rq_json = b\<rparr>"

definition get_request :: "string \<Rightarrow> string option \<Rightarrow> (string \<times> string) list \<Rightarrow> request" where
  "get_request p auth q =
     \<lparr>rq_method = ''GET'', rq_path = p, rq_searchParams = q, rq_authorization = auth,
      rq_json = None\<rparr>"

text \<open>Ada, user 1, with the password \<^verbatim>\<open>hunter22\<close>, and Bob, user 2.\<close>

definition ada :: user_row where
  "ada = \<lparr>u_id = 1, u_email = ''ada@example.com'',
           u_password = Bcrypt 10 ''salt'' ''hunter22'', u_created_at = ''2025-09-01 08:00:00''\<rparr>"

definition bob :: user_row where
  "bob = \<lparr>u_id = 2, u_email = ''bob@example.com'',
           u_password = Bcrypt 10 ''pepper'' ''correct horse'', u_created_at = ''2025-09-01 09:00:00''\<rparr>"

definition txn :: "nat \<Rightarrow> nat \<Rightarrow> string \<Rightarrow> real \<Rightarrow> string \<Rightarrow> txn_row" where
  "txn i uid d amt ty =
     \<lparr>t_id = i, t_user_id = uid, t_date = d, t_description = SqlNull, t_category = SqlNull,
      t_amount = amt, t_type = ty, t_created_at = ''2025-09-10 12:00:00''\<rparr>"

definition users_env :: "txn_row list \<Rightarrow> env" where
  "users_env ts =
     \<lparr>IH_DB = \<lparr>users = [ada, bob], users_seq = 2, transactions = ts,
               transactions_seq = length ts\<rparr>,
      JWT_SECRET = ''s3cret''\<rparr>"

text \<open>The token a login of the user gives at time 0: it expires at 604800 seconds.\<close>

definition token_of :: "user_row \<Rightarrow> string" where
  "token_of u = jwt_sign \<lparr>p_id = u_id u, p_email = u_email u, p_exp = 604800\<rparr> ''s3cret''"

definition bearer :: "user_row \<Rightarrow> string option" where
  "bearer u = Some (''Bearer '' @ token_of u)"




text \<open>The three ways a signup with valid input ends.\<close>

definition created :: outcome where
  "created = Inr (createJsonResponse (message_body ''User created'') 201)"

definition conflict :: outcome where
  "conflict = Inr (createJsonResponse (error_body ''Email already registered'') 409)"

definition unique_violation :: outcome where
  "unique_violation = Inl (D1_ERROR ''UNIQUE constraint failed: users.email'')"

section \<open>Facts about the token service\<close>

declare bits.simps [simp del]

lemma bits_zero: "bits 0 = []"
  by (simp add: bits.simps)

lemma bits_pos: "0 < n \<Longrightarrow> bits n = (if even n then CHR ''0'' else CHR ''1'') # bits (n div 2)"
  by (subst bits.simps) simp

lemma unbits_bits: "unbits (bits n) = Some n"
proof (induction n rule: less_induct)
  case (less n)
  show ?case
  proof (cases "n = 0")
    case True
    then show ?thesis by (simp add: bits_zero)
  next
    case False
    then have "unbits (bits (n div 2)) = Some (n div 2)"
      using less.IH [of "n div 2"] by simp
    with False show ?thesis by (auto simp: bits_pos)
  qed
qed

lemma dot_notin_bits: "CHR ''.'' \<notin> set (bits n)"
proof (induction n rule: less_induct)
  case (less n)
  show ?case
  proof (cases "n = 0")
    case True
    then show ?thesis by (simp add: bits_zero)
  next
    case False
    then have "CHR ''.'' \<notin> set (bits (n div 2))"
      using less.IH [of "n div 2"] by simp
    with False show ?thesis by (simp add: bits_pos)
  qed
qed

lemma part_bits: "part (bits n @ CHR ''.'' # r) = bits n"
  unfolding part_def using dot_notin_bits [of n]
  by (simp add: takeWhile_append)

lemma after_part_bits: "after_part (bits n @ CHR ''.'' # r) = r"
  by (simp add: after_part_def part_bits)

lemma jwt_decode_sign: "jwt_decode (jwt_sign p k) = Some p"
  by (simp add: jwt_decode_def jwt_sign_def claims_text_def part_bits after_part_bits unbits_bits)

lemma jwt_sign_key: "jwt_sign p k = jwt_sign p k' \<longleftrightarrow> k = k'"
  by (simp add: jwt_sign_def)

lemma token_verify_sign:
  "token_verify t (jwt_sign p k) k' =
     (if k' \<noteq> k then Inl Invalid else if p_exp p * 1000 \<le> t then Inl Expired else Inr p)"
  by (auto simp: token_verify_def jwt_decode_sign jwt_sign_key)

lemma verifyToken_bearer:
  "verifyToken rt (''Bearer '' @ jwt_sign p k) env =
     (if JWT_SECRET env = k \<and> now rt < p_exp p * 1000 then Some p else None)"
  by (auto simp: verifyToken_def startsWith_def jwt_verify_def token_verify_sign jwt_decode_sign)



section \<open>Facts about the handler\<close>

lemma member_truthy: "member d k = Some v \<Longrightarrow> truthy d"
  by (cases d) auto

lemma validateEmail_string: "validateEmail v \<Longrightarrow> \<exists>s. v = Some (JStr s)"
  by (cases v rule: validateEmail.cases) auto

lemma validatePassword_string: "validatePassword v \<Longrightarrow> \<exists>s. v = Some (JStr s)"
  by (cases v rule: validatePassword.cases) auto

lemma first_by_email_None:
  "users_first_by_email db e = None \<longleftrightarrow> e \<notin> set (map u_email (users db))"
  by (auto simp: users_first_by_email_def find_None_iff)

lemma first_by_email_Some:
  "users_first_by_email db e = Some u \<Longrightarrow> u \<in> set (users db) \<and> u_email u = e"
  by (auto simp: users_first_by_email_def find_Some_iff)

lemma find_snoc:
  "find P (xs @ [x]) = (case find P xs of Some y \<Rightarrow> Some y | None \<Rightarrow> if P x then Some x else None)"
  by (induction xs) auto

lemma users_insert_fresh:
  assumes "e \<notin> set (map u_email (users db))"
  shows "users_insert db e h ts =
           Inr (db\<lparr>users := users db @
                     [\<lparr>u_id = next_rowid (map u_id (users db)) (users_seq db), u_email = e,
                       u_password = h, u_created_at = ts\<rparr>],
                   users_seq := next_rowid (map u_id (users db)) (users_seq db)\<rparr>)"
  using assms by (simp add: users_insert_def Let_def)

lemma signup_valid_fresh:
  assumes "rq_json rq = Some d" "member d ''email'' = Some (JStr e)"
    "member d ''password'' = Some (JStr pw)" "regex_test email_re e" "6 \<le> length pw"
    "e \<notin> set (map u_email (users (IH_DB env)))"
  shows "signup rt rq env =
           (Inr (createJsonResponse (message_body ''User created'') 201),
            env\<lparr>IH_DB := (IH_DB env)\<lparr>users := users (IH_DB env) @
                     [\<lparr>u_id = next_rowid (map u_id (users (IH_DB env))) (users_seq (IH_DB env)),
                       u_email = e, u_password = bcrypt_hash pw 10 (salt rt),
                       u_created_at = current_timestamp rt\<rparr>],
                   users_seq := next_rowid (map u_id (users (IH_DB env))) (users_seq (IH_DB env))\<rparr>\<rparr>)"
proof -
  have t: "truthy d" using assms(2) by (rule member_truthy)
  have n: "users_first_by_email (IH_DB env) e = None"
    using assms(6) by (simp add: first_by_email_None)
  have "signup_lookup rq env = Insert e pw"
    using assms t n by (simp add: signup_lookup_def parseJSON_def)
  then show ?thesis
    using assms(6) by (simp add: signup_def signup_insert_def users_insert_fresh)
qed

lemma login_valid_known:
  assumes "rq_json rq = Some d" "member d ''email'' = Some (JStr e)"
    "member d ''password'' = Some (JStr pw)" "regex_test email_re e" "6 \<le> length pw"
    "users_first_by_email (IH_DB env) e = Some u" "bcrypt_compare pw (u_password u)"
  shows "login rt rq env =
           (Inr (createJsonResponse
                   (JObj [(''token'', JStr (jwt_sign \<lparr>p_id = u_id u, p_email = u_email u,
                        p_exp = now rt div 1000 + 7 * 24 * 60 * 60\<rparr> (JWT_SECRET env)))]) 200), env)"
proof -
  have t: "truthy d" using assms(2) by (rule member_truthy)
  show ?thesis
    using assms t by (simp add: login_def parseJSON_def)
qed


section \<open>Unfolding for evaluation on concrete requests\<close>

lemmas regex_defs = email_re_def address_char_def one_or_more_def literal_def is_space_def

declare bit_length.simps [simp del]

lemmas parse_defs =
  parseInt_def to_double_def bit_length.simps is_space_def is_digit_def digits_val_def
  digit_val_def

lemmas example_defs =
  clock_def credentials_def post_request_def get_request_def ada_def bob_def
  txn_def users_env_def token_of_def bearer_def

lemmas store_defs =
  transactions_all_def sql_integer_def limit_offset_def order_by_date_desc_def date_from_def
  date_until_def sort_key_def

lemma verifyToken_example:
  "verifyToken (clock t) (or_default (bearer u) []) (users_env ts) =
     (if t < 604800000 then Some \<lparr>p_id = u_id u, p_email = u_email u, p_exp = 604800\<rparr> else None)"
  using verifyToken_bearer [of "clock t" "\<lparr>p_id = u_id u, p_email = u_email u, p_exp = 604800\<rparr>"
      "''s3cret''" "users_env ts"]
  by (simp add: bearer_def token_of_def users_env_def clock_def)

lemma fetch_list:
  assumes "rq_path req = ''/api/transactions''" "rq_method req = ''GET''"
    "verifyToken rt (or_default (rq_authorization req) []) env = Some decoded"
  shows "fetch rt req env = (list_transactions req decoded env, env)"
  using assms by (simp add: fetch_def)

lemma fetch_create:
  assumes "rq_path req = ''/api/transactions''" "rq_method req = ''POST''"
    "verifyToken rt (or_default (rq_authorization req) []) env = Some decoded"
  shows "fetch rt req env = create_transaction rt req decoded env"
  using assms by (simp add: fetch_def)

lemma fetch_unauthorized:
  assumes "\<not> (rq_path req = ''/api/auth/signup'' \<and> rq_method req = ''POST'')"
    "\<not> (rq_path req = ''/api/auth/login'' \<and> rq_method req = ''POST'')"
    "verifyToken rt (or_default (rq_authorization req) []) env = None"
  shows "fetch rt req env = (Inr (createJsonResponse (error_body ''Unauthorized'') 401), env)"
  using assms by (auto simp add: fetch_def)

lemma set_limit_offset: "set (limit_offset l off rows) \<subseteq> set rows"
  by (auto simp: limit_offset_def dest: in_set_dropD in_set_takeD)

lemma set_order_by_date_desc: "set (order_by_date_desc rows) = set rows"
  by (simp add: order_by_date_desc_def)

lemma transactions_all_rows:
  assumes "transactions_all db uid s e l off = Inr rows" "t \<in> set rows"
  shows "t_user_id t = uid \<and> date_from s t \<and> date_until e t \<and> t \<in> set (transactions db)"
proof -
  from assms(1) have "rows = limit_offset (int_of l) (int_of off)
      (order_by_date_desc (filter (\<lambda>t. t_user_id t = uid \<and> date_from s t \<and> date_until e t) (transactions db)))"
    by (simp add: transactions_all_def split: if_splits)
  with assms(2)
  have "t \<in> set (order_by_date_desc (filter (\<lambda>t. t_user_id t = uid \<and> date_from s t \<and> date_until e t) (transactions db)))"
    using set_limit_offset [THEN subsetD] by fastforce
  then show ?thesis by (simp add: set_order_by_date_desc)
qed

lemma list_transactions_ok:
  assumes "list_transactions req decoded env = Inr r"
  shows "\<exists>rows. transactions_all (IH_DB env) (p_id decoded) (given (searchParams_get req ''startDate''))
            (given (searchParams_get req ''endDate'')) (limit_of req) (offset_of req) = Inr rows
          \<and> r = createJsonResponse (transactions_body rows (int_of (limit_of req)) (int_of (offset_of req))) 200"
  using assms by (auto simp: list_transactions_def Let_def split: sum.splits)

lemma searchParams_get_extra:
  "k \<noteq> k' \<Longrightarrow> searchParams_get (req\<lparr>rq_json := b, rq_searchParams := rq_searchParams req @ [(k', x)]\<rparr>) k
     = searchParams_get req k"
  by (auto simp: searchParams_get_def map_add_def split: option.splits)

lemma nonblank_string_iff: "nonblank_string v \<longleftrightarrow> (\<exists>s. v = Some (JStr s) \<and> trim s \<noteq> [])"
  by (cases v rule: nonblank_string.cases) auto

lemma is_number_iff: "is_number v \<longleftrightarrow> (\<exists>x. v = Some (JNum x))"
  by (cases v rule: is_number.cases) auto

lemma validateTransaction_iff:
  "validateTransaction d \<longleftrightarrow>
     (\<exists>s x ty. member d ''date'' = Some (JStr s) \<and> trim s \<noteq> []
        \<and> member d ''amount'' = Some (JNum x)
        \<and> member d ''type'' = Some (JStr ty) \<and> trim ty \<noteq> [])"
proof
  assume "validateTransaction d"
  then show "\<exists>s x ty. member d ''date'' = Some (JStr s) \<and> trim s \<noteq> []
        \<and> member d ''amount'' = Some (JNum x)
        \<and> member d ''type'' = Some (JStr ty) \<and> trim ty \<noteq> []"
    by (auto simp: validateTransaction_def nonblank_string_iff is_number_iff split: if_splits)
next
  assume "\<exists>s x ty. member d ''date'' = Some (JStr s) \<and> trim s \<noteq> []
        \<and> member d ''amount'' = Some (JNum x)
        \<and> member d ''type'' = Some (JStr ty) \<and> trim ty \<noteq> []"
  then obtain s x ty where h: "member d ''date'' = Some (JStr s)" "trim s \<noteq> []"
        "member d ''amount'' = Some (JNum x)" "member d ''type'' = Some (JStr ty)" "trim ty \<noteq> []"
    by blast
  from h(1) have "truthy d" by (rule member_truthy)
  with h show "validateTransaction d"
    by (simp add: validateTransaction_def)
qed

lemma create_transaction_status:
  "fst (create_transaction rt req decoded env) =
      Inr (createJsonResponse (error_body ''Invalid transaction data'') 400)
   \<longleftrightarrow> \<not> validateTransaction (parseJSON req)"
  by (auto simp: create_transaction_def Let_def createJsonResponse_def
      split: sum.splits if_splits)

lemma list_transactions_eval:
  assumes "limit_of req = Finite l" "offset_of req = Finite off"
    "- (2 ^ 63) < l" "- (2 ^ 63) < off" "off < 2 ^ 63"
  shows "list_transactions req decoded env =
           Inr (createJsonResponse
                  (transactions_body
                     (limit_offset l off
                        (order_by_date_desc
                           (filter (\<lambda>t. t_user_id t = p_id decoded
                                \<and> date_from (given (searchParams_get req ''startDate'')) t
                                \<and> date_until (given (searchParams_get req ''endDate'')) t)
                              (transactions (IH_DB env))))) l off) 200)"
proof -
  have "l \<le> 100"
    using assms(1) by (cases "parseInt (or_default (searchParams_get req ''limit'') ''50'')")
      (auto simp: limit_of_def)
  then have "l < 2 ^ 63" by simp
  with assms show ?thesis
    by (simp add: list_transactions_def transactions_all_def sql_integer_def)
qed

lemma parseInt_empty: "parseInt [] = NaN"
  by (simp add: parseInt_def)

lemma default_limit: "parseInt ''50'' = Finite 50"
  by (simp add: parse_defs)

lemma default_offset: "parseInt ''0'' = Finite 0"
  by (simp add: parse_defs)




lemma bearer_ada_0:
  "verifyToken (clock 0) (or_default (bearer ada) []) (users_env ts)
     = Some \<lparr>p_id = 1, p_email = ''ada@example.com'', p_exp = 604800\<rparr>"
  using verifyToken_example [of 0 ada ts] by (simp add: ada_def)


lemma login_failure_response:
  assumes "fst (login rt rq env) = Inr r" "status r \<noteq> 200"
  shows "r = (if \<not> truthy (parseJSON rq) \<or> \<not> validateEmail (member (parseJSON rq) ''email'')
                  \<or> \<not> validatePassword (member (parseJSON rq) ''password'')
              then createJsonResponse (error_body ''Invalid email or password'') 400
              else createJsonResponse (error_body ''Invalid credentials'') 401)"
  using assms
  by (auto simp: login_def Let_def createJsonResponse_def split: if_splits option.splits)

lemma signup_lookup_valid:
  assumes "rq_json rq = Some d" "member d ''email'' = Some (JStr e)"
    "member d ''password'' = Some (JStr pw)" "regex_test email_re e" "6 \<le> length pw"
  shows "signup_lookup rq env =
           (if e \<in> set (map u_email (users (IH_DB env)))
            then Respond (createJsonResponse (error_body ''Email already registered'') 409)
            else Insert e pw)"
proof -
  have t: "truthy d" using assms(2) by (rule member_truthy)
  show ?thesis
  proof (cases "users_first_by_email (IH_DB env) e")
    case None
    then have "e \<notin> set (map u_email (users (IH_DB env)))"
      by (simp add: first_by_email_None)
    with None assms t show ?thesis
      by (simp add: signup_lookup_def parseJSON_def)
  next
    case (Some u)
    then have "e \<in> set (map u_email (users (IH_DB env)))"
      using first_by_email_None [of "IH_DB env" e] by simp
    with Some assms t show ?thesis
      by (simp add: signup_lookup_def parseJSON_def)
  qed
qed

lemma rows_with_email_zero:
  "rows_with_email e env = 0 \<longleftrightarrow> e \<notin> set (map u_email (users (IH_DB env)))"
  by (auto simp: rows_with_email_def filter_empty_conv)

lemma signup_insert_taken:
  assumes "e \<in> set (map u_email (users (IH_DB env)))"
  shows "signup_insert rt e pw env = (unique_violation, env)"
  using assms by (simp add: signup_insert_def users_insert_def unique_violation_def)

lemma signup_insert_fresh:
  assumes "e \<notin> set (map u_email (users (IH_DB env)))"
  shows "fst (signup_insert rt e pw env) = created"
    and "e \<in> set (map u_email (users (IH_DB (snd (signup_insert rt e pw env)))))"
    and "rows_with_email e (snd (signup_insert rt e pw env)) = 1"
proof -
  have z: "filter (\<lambda>u. u_email u = e) (users (IH_DB env)) = []"
    using assms by (auto simp: filter_empty_conv)
  show "fst (signup_insert rt e pw env) = created"
    using assms by (simp add: signup_insert_def users_insert_fresh created_def)
  show "e \<in> set (map u_email (users (IH_DB (snd (signup_insert rt e pw env)))))"
    using assms by (simp add: signup_insert_def users_insert_fresh)
  show "rows_with_email e (snd (signup_insert rt e pw env)) = 1"
    using assms z by (simp add: signup_insert_def users_insert_fresh rows_with_email_def)
qed

lemma signup_created_fresh:
  assumes "signup rt rq env = (Inr r, env1)" "status r = 201"
  shows "\<exists>e pw. signup_lookup rq env = Insert e pw \<and> e \<notin> set (map u_email (users (IH_DB env)))
           \<and> env1 = snd (signup_insert rt e pw env)
           \<and> e = string_of (member (parseJSON rq) ''email'')"
proof (cases "signup_lookup rq env")
  case (Respond r')
  then have "status r' = 400 \<or> status r' = 409"
    by (auto simp: signup_lookup_def Let_def createJsonResponse_def split: if_splits option.splits)
  with Respond assms show ?thesis by (auto simp: signup_def)
next
  case (Insert e pw)
  have e: "e = string_of (member (parseJSON rq) ''email'')"
    using Insert by (auto simp: signup_lookup_def Let_def split: if_splits option.splits)
  have "e \<notin> set (map u_email (users (IH_DB env)))"
  proof
    assume "e \<in> set (map u_email (users (IH_DB env)))"
    then have "signup_insert rt e pw env = (unique_violation, env)"
      by (rule signup_insert_taken)
    with Insert assms show False by (simp add: signup_def unique_violation_def)
  qed
  with Insert assms e show ?thesis by (auto simp: signup_def)
qed

section \<open>The numbers of the query at the edges of the store's range\<close>

lemma parseInt_rounds_to_even: "parseInt ''9007199254740993'' = Finite 9007199254740992"
  by (simp add: parse_defs)

lemma parseInt_rounds_up: "parseInt ''9223372036854775807'' = Finite 9223372036854775808"
  by (simp add: parse_defs)

lemma parseInt_int64_min: "parseInt ''-9223372036854775808'' = Finite (- 9223372036854775808)"
  by (simp add: parse_defs)

lemma store_refuses_int64_bounds:
  "\<not> sql_integer (parseInt ''9223372036854775807'')"
  "\<not> sql_integer (parseInt ''-9223372036854775808'')"
  "sql_integer (parseInt ''-9223372036854774784'')"
  "sql_integer (parseInt ''9223372036854774784'')"
  by (simp_all add: parse_defs sql_integer_def)

lemma offset_out_of_range_throws:
  "fetch (clock 0) (get_request ''/api/transactions'' (bearer ada) [(''offset'', ''-9223372036854775808'')])
        (users_env [])
      = (Inl (D1_ERROR ''datatype mismatch''), users_env [])"
  using bearer_ada_0 [of "[]"]
  by (simp add: fetch_def list_transactions_def limit_of_def offset_of_def searchParams_get_def
      get_request_def parse_defs transactions_all_def sql_integer_def)

section \<open>Claims\<close>

text \<open>
  C1. An authenticated \<^verbatim>\<open>GET /api/transactions\<close> answers 200 with rows of the store
  that all belong to the user id of the verified token claims, and leaves the store as
  it was; the answer does not depend on the request body or on a \<^verbatim>\<open>user_id\<close> query
  parameter the caller adds.
\<close>

theorem list_scoped_to_token:
  assumes "rq_path req = ''/api/transactions''" and "rq_method req = ''GET''"
    and "verifyToken rt (or_default (rq_authorization req) []) env = Some decoded"
  shows "(\<forall>r env'. fetch rt req env = (Inr r, env') \<longrightarrow>
            (\<exists>rows l off. status r = 200 \<and> body r = transactions_body rows l off \<and> env' = env
               \<and> (\<forall>t \<in> set rows. t_user_id t = p_id decoded \<and> t \<in> set (transactions (IH_DB env)))))
       \<and> (\<forall>b x. fetch rt (req\<lparr>rq_json := b, rq_searchParams := rq_searchParams req @ [(''user_id'', x)]\<rparr>) env
                 = fetch rt req env)"
proof (intro conjI allI impI)
  fix r env'
  assume "fetch rt req env = (Inr r, env')"
  with fetch_list [OF assms] have l: "list_transactions req decoded env = Inr r" and e: "env' = env"
    by simp_all
  from list_transactions_ok [OF l] obtain rows where
    a: "transactions_all (IH_DB env) (p_id decoded) (given (searchParams_get req ''startDate''))
            (given (searchParams_get req ''endDate'')) (limit_of req) (offset_of req) = Inr rows"
    and r: "r = createJsonResponse (transactions_body rows (int_of (limit_of req)) (int_of (offset_of req))) 200"
    by blast
  have "\<forall>t \<in> set rows. t_user_id t = p_id decoded \<and> t \<in> set (transactions (IH_DB env))"
    using transactions_all_rows [OF a] by blast
  with r e show "\<exists>rows l off. status r = 200 \<and> body r = transactions_body rows l off \<and> env' = env
               \<and> (\<forall>t \<in> set rows. t_user_id t = p_id decoded \<and> t \<in> set (transactions (IH_DB env)))"
    by (auto simp: createJsonResponse_def)
next
  fix b x
  let ?req = "req\<lparr>rq_json := b, rq_searchParams := rq_searchParams req @ [(''user_id'', x)]\<rparr>"
  have "rq_path ?req = ''/api/transactions''" "rq_method ?req = ''GET''"
    "verifyToken rt (or_default (rq_authorization ?req) []) env = Some decoded"
    using assms by simp_all
  then have "fetch rt ?req env = (list_transactions ?req decoded env, env)"
    by (rule fetch_list)
  moreover have "list_transactions ?req decoded env = list_transactions req decoded env"
  proof -
    have "limit_of ?req = limit_of req" "offset_of ?req = offset_of req"
      "searchParams_get ?req ''startDate'' = searchParams_get req ''startDate''"
      "searchParams_get ?req ''endDate'' = searchParams_get req ''endDate''"
      by (simp_all add: limit_of_def offset_of_def searchParams_get_extra)
    then show ?thesis
      unfolding list_transactions_def by (simp split: sum.splits)
  qed
  ultimately show "fetch rt ?req env = fetch rt req env"
    using fetch_list [OF assms] by simp
qed

theorem list_scoped_to_token_witness:
  "rq_path (get_request ''/api/transactions'' (bearer ada) []) = ''/api/transactions''
   \<and> rq_method (get_request ''/api/transactions'' (bearer ada) []) = ''GET''
   \<and> verifyToken (clock 0) (or_default (rq_authorization (get_request ''/api/transactions'' (bearer ada) [])) [])
        (users_env [txn 1 1 ''2025-09-01'' 1200 ''income'', txn 2 2 ''2025-09-02'' (- 1200) ''expense'',
                    txn 3 1 ''2025-09-03'' (- 150) ''expense''])
       = Some \<lparr>p_id = 1, p_email = ''ada@example.com'', p_exp = 604800\<rparr>
   \<and> fetch (clock 0) (get_request ''/api/transactions'' (bearer ada) [(''user_id'', ''2'')])
        (users_env [txn 1 1 ''2025-09-01'' 1200 ''income'', txn 2 2 ''2025-09-02'' (- 1200) ''expense'',
                    txn 3 1 ''2025-09-03'' (- 150) ''expense''])
       = (Inr (createJsonResponse
                 (transactions_body [txn 3 1 ''2025-09-03'' (- 150) ''expense'',
                                     txn 1 1 ''2025-09-01'' 1200 ''income''] 50 0) 200),
          users_env [txn 1 1 ''2025-09-01'' 1200 ''income'', txn 2 2 ''2025-09-02'' (- 1200) ''expense'',
                     txn 3 1 ''2025-09-03'' (- 150) ''expense''])"
proof -
  let ?rq = "get_request ''/api/transactions'' (bearer ada) []"
  let ?env = "users_env [txn 1 1 ''2025-09-01'' 1200 ''income'', txn 2 2 ''2025-09-02'' (- 1200) ''expense'',
                    txn 3 1 ''2025-09-03'' (- 150) ''expense'']"
  let ?p = "\<lparr>p_id = 1, p_email = ''ada@example.com'', p_exp = 604800\<rparr>"
  have a1: "rq_path ?rq = ''/api/transactions''" and a2: "rq_method ?rq = ''GET''"
    by (simp_all add: get_request_def)
  have a3: "verifyToken (clock 0) (or_default (rq_authorization ?rq) []) ?env = Some ?p"
    using verifyToken_example [of 0 ada] by (simp add: get_request_def ada_def)
  have f: "fetch (clock 0) ?rq ?env =
      (Inr (createJsonResponse
                 (transactions_body [txn 3 1 ''2025-09-03'' (- 150) ''expense'',
                                     txn 1 1 ''2025-09-01'' 1200 ''income''] 50 0) 200), ?env)"
    using a3
    by (simp add: fetch_def list_transactions_def limit_of_def offset_of_def searchParams_get_def
        get_request_def parse_defs store_defs users_env_def txn_def)
  have "fetch (clock 0) (?rq\<lparr>rq_json := None, rq_searchParams := rq_searchParams ?rq @ [(''user_id'', ''2'')]\<rparr>) ?env
          = fetch (clock 0) ?rq ?env"
    using list_scoped_to_token [OF a1 a2 a3] by blast
  then have "fetch (clock 0) (get_request ''/api/transactions'' (bearer ada) [(''user_id'', ''2'')]) ?env
          = fetch (clock 0) ?rq ?env"
    by (simp add: get_request_def)
  with a1 a2 a3 f show ?thesis by simp
qed

text \<open>
  C2. Two login requests that pass input validation, one with an email no user row has
  and one with a stored email and a password the stored hash does not verify, get the
  same response: status 401 with the body \<^verbatim>\<open>{error: 'Invalid credentials'}\<close>.
  Moreover the response to a login request that does not succeed is the same whatever
  the store holds: it tells nothing about which emails are registered.
\<close>

theorem login_failures_indistinguishable:
  assumes "rq_path rq1 = ''/api/auth/login''" and "rq_method rq1 = ''POST''"
    and "rq_path rq2 = ''/api/auth/login''" and "rq_method rq2 = ''POST''"
    and "rq_json rq1 = Some d1" and "validateEmail (member d1 ''email'')"
    and "validatePassword (member d1 ''password'')"
    and "rq_json rq2 = Some d2" and "validateEmail (member d2 ''email'')"
    and "validatePassword (member d2 ''password'')"
    and "users_first_by_email (IH_DB env) (string_of (member d1 ''email'')) = None"
    and "users_first_by_email (IH_DB env) (string_of (member d2 ''email'')) = Some user"
    and "\<not> bcrypt_compare (string_of (member d2 ''password'')) (u_password user)"
  shows "fetch rt1 rq1 env = (Inr (createJsonResponse (error_body ''Invalid credentials'') 401), env)
       \<and> fetch rt2 rq2 env = fetch rt1 rq1 env
       \<and> (\<forall>(rq :: request) (rtA :: runtime) (rtB :: runtime) (envA :: env) (envB :: env) rA rB.
             rq_path rq = ''/api/auth/login'' \<and> rq_method rq = ''POST''
             \<and> fst (fetch rtA rq envA) = Inr rA \<and> fst (fetch rtB rq envB) = Inr rB
             \<and> status rA \<noteq> 200 \<and> status rB \<noteq> 200 \<longrightarrow> rA = rB)"
proof -
  have t1: "truthy d1"
    using assms(6) validateEmail_string member_truthy by blast
  have t2: "truthy d2"
    using assms(9) validateEmail_string member_truthy by blast
  have 1: "fetch rt1 rq1 env = (Inr (createJsonResponse (error_body ''Invalid credentials'') 401), env)"
    using assms(1,2,5,6,7,11) t1 by (simp add: fetch_def login_def parseJSON_def)
  have 2: "fetch rt2 rq2 env = (Inr (createJsonResponse (error_body ''Invalid credentials'') 401), env)"
    using assms(3,4,8,9,10,12,13) t2 by (simp add: fetch_def login_def parseJSON_def)
  have 3: "\<forall>(rq :: request) (rtA :: runtime) (rtB :: runtime) (envA :: env) (envB :: env) rA rB.
             rq_path rq = ''/api/auth/login'' \<and> rq_method rq = ''POST''
             \<and> fst (fetch rtA rq envA) = Inr rA \<and> fst (fetch rtB rq envB) = Inr rB
             \<and> status rA \<noteq> 200 \<and> status rB \<noteq> 200 \<longrightarrow> rA = rB"
  proof (intro allI impI)
    fix rq :: request and rtA rtB :: runtime and envA envB :: env and rA rB
    assume h: "rq_path rq = ''/api/auth/login'' \<and> rq_method rq = ''POST''
             \<and> fst (fetch rtA rq envA) = Inr rA \<and> fst (fetch rtB rq envB) = Inr rB
             \<and> status rA \<noteq> 200 \<and> status rB \<noteq> 200"
    then have route: "rq_path rq = ''/api/auth/login''" "rq_method rq = ''POST''"
      by simp_all
    have "fetch rtA rq envA = login rtA rq envA" "fetch rtB rq envB = login rtB rq envB"
      using route by (simp_all add: fetch_def)
    with h have "fst (login rtA rq envA) = Inr rA" "fst (login rtB rq envB) = Inr rB"
      by simp_all
    with h show "rA = rB"
      using login_failure_response [of rtA rq envA rA] login_failure_response [of rtB rq envB rB]
      by simp
  qed
  from 1 2 3 show ?thesis by simp
qed

theorem login_failures_indistinguishable_witness:
  "users_first_by_email (IH_DB (users_env [])) ''eve@example.com'' = None
   \<and> users_first_by_email (IH_DB (users_env [])) ''ada@example.com'' = Some ada
   \<and> \<not> bcrypt_compare ''hunter23'' (u_password ada)
   \<and> fetch (clock 0) (post_request ''/api/auth/login'' None (Some (credentials ''eve@example.com'' ''hunter22'')))
        (users_env [])
       = (Inr (createJsonResponse (error_body ''Invalid credentials'') 401), users_env [])
   \<and> fetch (clock 7) (post_request ''/api/auth/login'' None (Some (credentials ''ada@example.com'' ''hunter23'')))
        (users_env [])
       = fetch (clock 0) (post_request ''/api/auth/login'' None (Some (credentials ''eve@example.com'' ''hunter22'')))
           (users_env [])"
proof -
  let ?d1 = "credentials ''eve@example.com'' ''hunter22''"
  let ?d2 = "credentials ''ada@example.com'' ''hunter23''"
  let ?rq1 = "post_request ''/api/auth/login'' None (Some ?d1)"
  let ?rq2 = "post_request ''/api/auth/login'' None (Some ?d2)"
  have a1: "rq_path ?rq1 = ''/api/auth/login''" and a2: "rq_method ?rq1 = ''POST''"
    and a3: "rq_path ?rq2 = ''/api/auth/login''" and a4: "rq_method ?rq2 = ''POST''"
    and a5: "rq_json ?rq1 = Some ?d1" and a8: "rq_json ?rq2 = Some ?d2"
    by (simp_all add: post_request_def)
  have a6: "validateEmail (member ?d1 ''email'')" and a9: "validateEmail (member ?d2 ''email'')"
    by (simp_all add: credentials_def regex_defs)
  have a7: "validatePassword (member ?d1 ''password'')"
    and a10: "validatePassword (member ?d2 ''password'')"
    by (simp_all add: credentials_def)
  have a11: "users_first_by_email (IH_DB (users_env [])) (string_of (member ?d1 ''email'')) = None"
    and a12: "users_first_by_email (IH_DB (users_env [])) (string_of (member ?d2 ''email'')) = Some ada"
    by (simp_all add: credentials_def users_first_by_email_def users_env_def ada_def bob_def)
  have a13: "\<not> bcrypt_compare (string_of (member ?d2 ''password'')) (u_password ada)"
    by (simp add: credentials_def ada_def)
  from login_failures_indistinguishable [OF a1 a2 a3 a4 a5 a6 a7 a8 a9 a10 a11 a12 a13, of "clock 0" "clock 7"]
  show ?thesis using a11 a12 a13 by (simp add: credentials_def)
qed

text \<open>
  C3 (amended). After a successful signup, a second signup with valid input and the
  same email answers 409 and writes nothing: exactly one user row has the email. When
  two such signups are handled at once, in every order of their store calls exactly one
  of them answers 201 and exactly one user row has the email afterwards; the other
  answers 409 when its SELECT ran after the first INSERT, and ends in the store's
  exception for the UNIQUE constraint when its SELECT ran before it.
\<close>

theorem duplicate_signup:
  assumes "rq_path rq1 = ''/api/auth/signup''" and "rq_method rq1 = ''POST''"
    and "rq_path rq2 = ''/api/auth/signup''" and "rq_method rq2 = ''POST''"
    and "rq_json rq1 = Some d1" and "member d1 ''email'' = Some (JStr e)"
    and "member d1 ''password'' = Some (JStr pw1)"
    and "rq_json rq2 = Some d2" and "member d2 ''email'' = Some (JStr e)"
    and "member d2 ''password'' = Some (JStr pw2)"
    and "validateEmail (Some (JStr e))" and "validatePassword (Some (JStr pw1))"
    and "validatePassword (Some (JStr pw2))"
    and "fetch rt1 rq1 env = (Inr r1, env1)" and "status r1 = 201"
  shows "fetch rt2 rq2 env1 = (conflict, env1) \<and> rows_with_email e env1 = 1
       \<and> (\<forall>s \<in> set interleavings. \<exists>oa ob env'.
             run rtA rtB s (Waiting rq1, Waiting rq2, env) = (Done oa, Done ob, env')
             \<and> rows_with_email e env' = 1
             \<and> (oa = created \<and> (ob = conflict \<or> ob = unique_violation)
                 \<or> ob = created \<and> (oa = conflict \<or> oa = unique_violation)))
       \<and> fst (snd (run rtA rtB [A, A, B, B] (Waiting rq1, Waiting rq2, env))) = Done conflict
       \<and> fst (run rtA rtB [B, B, A, A] (Waiting rq1, Waiting rq2, env)) = Done conflict
       \<and> fst (snd (run rtA rtB [A, B, A, B] (Waiting rq1, Waiting rq2, env))) = Done unique_violation
       \<and> fst (snd (run rtA rtB [B, A, A, B] (Waiting rq1, Waiting rq2, env))) = Done unique_violation
       \<and> fst (run rtA rtB [A, B, B, A] (Waiting rq1, Waiting rq2, env)) = Done unique_violation
       \<and> fst (run rtA rtB [B, A, B, A] (Waiting rq1, Waiting rq2, env)) = Done unique_violation"
proof -
  have re: "regex_test email_re e" and len1: "6 \<le> length pw1" and len2: "6 \<le> length pw2"
    using assms(11,12,13) by simp_all
  have L1: "\<And>env. signup_lookup rq1 env =
           (if e \<in> set (map u_email (users (IH_DB env)))
            then Respond (createJsonResponse (error_body ''Email already registered'') 409)
            else Insert e pw1)"
    using assms(5,6,7) re len1 by (rule signup_lookup_valid)
  have L2: "\<And>env. signup_lookup rq2 env =
           (if e \<in> set (map u_email (users (IH_DB env)))
            then Respond (createJsonResponse (error_body ''Email already registered'') 409)
            else Insert e pw2)"
    using assms(8,9,10) re len2 by (rule signup_lookup_valid)
  have s1: "signup rt1 rq1 env = (Inr r1, env1)"
    using assms(1,2,14) by (simp add: fetch_def)
  from signup_created_fresh [OF s1 assms(15)] L1 [of env]
  have fresh: "e \<notin> set (map u_email (users (IH_DB env)))"
    and env1: "env1 = snd (signup_insert rt1 e pw1 env)"
    by (auto split: if_splits)
  have taken1: "e \<in> set (map u_email (users (IH_DB env1)))"
    and one1: "rows_with_email e env1 = 1"
    unfolding env1 using fresh by (rule signup_insert_fresh(2), rule signup_insert_fresh(3))
  have seq: "fetch rt2 rq2 env1 = (conflict, env1)"
    using assms(3,4) taken1 by (simp add: fetch_def signup_def L2 conflict_def)
  let ?ea = "snd (signup_insert rtA e pw1 env)"
  let ?eb = "snd (signup_insert rtB e pw2 env)"
  note fa = signup_insert_fresh [OF fresh, of rtA pw1]
  note fb = signup_insert_fresh [OF fresh, of rtB pw2]
  have ta: "signup_insert rtB e pw2 ?ea = (unique_violation, ?ea)"
    using fa(2) by (rule signup_insert_taken)
  have tb: "signup_insert rtA e pw1 ?eb = (unique_violation, ?eb)"
    using fb(2) by (rule signup_insert_taken)
  have r1: "run rtA rtB [A, A, B, B] (Waiting rq1, Waiting rq2, env) = (Done created, Done conflict, ?ea)"
    using fresh fa by (simp add: advance_def L1 L2 conflict_def)
  have r2: "run rtA rtB [A, B, A, B] (Waiting rq1, Waiting rq2, env) = (Done created, Done unique_violation, ?ea)"
    using fresh fa ta by (simp add: advance_def L1 L2)
  have r3: "run rtA rtB [A, B, B, A] (Waiting rq1, Waiting rq2, env) = (Done unique_violation, Done created, ?eb)"
    using fresh fb tb by (simp add: advance_def L1 L2)
  have r4: "run rtA rtB [B, A, A, B] (Waiting rq1, Waiting rq2, env) = (Done created, Done unique_violation, ?ea)"
    using fresh fa ta by (simp add: advance_def L1 L2)
  have r5: "run rtA rtB [B, A, B, A] (Waiting rq1, Waiting rq2, env) = (Done unique_violation, Done created, ?eb)"
    using fresh fb tb by (simp add: advance_def L1 L2)
  have r6: "run rtA rtB [B, B, A, A] (Waiting rq1, Waiting rq2, env) = (Done conflict, Done created, ?eb)"
    using fresh fb by (simp add: advance_def L1 L2 conflict_def)
  have conc: "\<forall>s \<in> set interleavings. \<exists>oa ob env'.
             run rtA rtB s (Waiting rq1, Waiting rq2, env) = (Done oa, Done ob, env')
             \<and> rows_with_email e env' = 1
             \<and> (oa = created \<and> (ob = conflict \<or> ob = unique_violation)
                 \<or> ob = created \<and> (oa = conflict \<or> oa = unique_violation))"
  proof
    fix s
    assume "s \<in> set interleavings"
    then consider "s = [A, A, B, B]" | "s = [A, B, A, B]" | "s = [A, B, B, A]"
      | "s = [B, A, A, B]" | "s = [B, A, B, A]" | "s = [B, B, A, A]"
      by (auto simp: interleavings_def)
    then show "\<exists>oa ob env'.
             run rtA rtB s (Waiting rq1, Waiting rq2, env) = (Done oa, Done ob, env')
             \<and> rows_with_email e env' = 1
             \<and> (oa = created \<and> (ob = conflict \<or> ob = unique_violation)
                 \<or> ob = created \<and> (oa = conflict \<or> oa = unique_violation))"
    proof cases
      case 1
      show ?thesis unfolding 1 r1 using fa(3) by simp
    next
      case 2
      show ?thesis unfolding 2 r2 using fa(3) by simp
    next
      case 3
      show ?thesis unfolding 3 r3 using fb(3) by simp
    next
      case 4
      show ?thesis unfolding 4 r4 using fa(3) by simp
    next
      case 5
      show ?thesis unfolding 5 r5 using fb(3) by simp
    next
      case 6
      show ?thesis unfolding 6 r6 using fb(3) by simp
    qed
  qed
  have split:
    "fst (snd (run rtA rtB [A, A, B, B] (Waiting rq1, Waiting rq2, env))) = Done conflict"
    "fst (run rtA rtB [B, B, A, A] (Waiting rq1, Waiting rq2, env)) = Done conflict"
    "fst (snd (run rtA rtB [A, B, A, B] (Waiting rq1, Waiting rq2, env))) = Done unique_violation"
    "fst (snd (run rtA rtB [B, A, A, B] (Waiting rq1, Waiting rq2, env))) = Done unique_violation"
    "fst (run rtA rtB [A, B, B, A] (Waiting rq1, Waiting rq2, env)) = Done unique_violation"
    "fst (run rtA rtB [B, A, B, A] (Waiting rq1, Waiting rq2, env)) = Done unique_violation"
    by (simp_all only: r1 r2 r3 r4 r5 r6 fst_conv snd_conv)
  from seq one1 conc split show ?thesis by (intro conjI)
qed

theorem duplicate_signup_witness:
  "fetch (clock 0) (post_request ''/api/auth/signup'' None (Some (credentials ''eve@example.com'' ''sesame'')))
      (users_env [])
     = (created, snd (signup_insert (clock 0) ''eve@example.com'' ''sesame'' (users_env [])))
   \<and> fetch (clock 1) (post_request ''/api/auth/signup'' None (Some (credentials ''eve@example.com'' ''another'')))
        (snd (signup_insert (clock 0) ''eve@example.com'' ''sesame'' (users_env [])))
     = (conflict, snd (signup_insert (clock 0) ''eve@example.com'' ''sesame'' (users_env [])))
   \<and> rows_with_email ''eve@example.com''
        (snd (signup_insert (clock 0) ''eve@example.com'' ''sesame'' (users_env []))) = 1
   \<and> (\<exists>oa ob env'.
         run (clock 2) (clock 3) [A, B, B, A]
           (Waiting (post_request ''/api/auth/signup'' None (Some (credentials ''eve@example.com'' ''sesame''))),
            Waiting (post_request ''/api/auth/signup'' None (Some (credentials ''eve@example.com'' ''another''))),
            users_env [])
           = (Done oa, Done ob, env')
         \<and> rows_with_email ''eve@example.com'' env' = 1)"
proof -
  let ?d1 = "credentials ''eve@example.com'' ''sesame''"
  let ?d2 = "credentials ''eve@example.com'' ''another''"
  let ?rq1 = "post_request ''/api/auth/signup'' None (Some ?d1)"
  let ?rq2 = "post_request ''/api/auth/signup'' None (Some ?d2)"
  let ?env1 = "snd (signup_insert (clock 0) ''eve@example.com'' ''sesame'' (users_env []))"
  let ?r1 = "createJsonResponse (message_body ''User created'') 201"
  have a1: "rq_path ?rq1 = ''/api/auth/signup''" and a2: "rq_method ?rq1 = ''POST''"
    and a3: "rq_path ?rq2 = ''/api/auth/signup''" and a4: "rq_method ?rq2 = ''POST''"
    and a5: "rq_json ?rq1 = Some ?d1" and a8: "rq_json ?rq2 = Some ?d2"
    by (simp_all add: post_request_def)
  have a6: "member ?d1 ''email'' = Some (JStr ''eve@example.com'')"
    and a7: "member ?d1 ''password'' = Some (JStr ''sesame'')"
    and a9: "member ?d2 ''email'' = Some (JStr ''eve@example.com'')"
    and a10: "member ?d2 ''password'' = Some (JStr ''another'')"
    by (simp_all add: credentials_def)
  have a11: "validateEmail (Some (JStr ''eve@example.com''))"
    by (simp add: regex_defs)
  have a12: "validatePassword (Some (JStr ''sesame''))"
    and a13: "validatePassword (Some (JStr ''another''))"
    by simp_all
  have fresh: "''eve@example.com'' \<notin> set (map u_email (users (IH_DB (users_env []))))"
    by (simp add: example_defs)
  have a14: "fetch (clock 0) ?rq1 (users_env []) = (Inr ?r1, ?env1)"
    using a11 fresh
    by (simp add: fetch_def signup_def a1 a2
        signup_lookup_valid [OF a5 a6 a7] signup_insert_def users_insert_fresh)
  have a15: "status ?r1 = 201"
    by (simp add: createJsonResponse_def)
  note t = duplicate_signup [OF a1 a2 a3 a4 a5 a6 a7 a8 a9 a10 a11 a12 a13 a14 a15,
      of "clock 1" "clock 2" "clock 3"]
  have m: "[A, B, B, A] \<in> set interleavings"
    by (simp add: interleavings_def)
  from t m have "\<exists>oa ob env'.
         run (clock 2) (clock 3) [A, B, B, A] (Waiting ?rq1, Waiting ?rq2, users_env [])
           = (Done oa, Done ob, env')
         \<and> rows_with_email ''eve@example.com'' env' = 1"
    by blast
  with t a14 show ?thesis
    by (simp add: created_def)
qed

text \<open>
  C3 as stated fails under concurrent attempts: when both SELECTs run before the first
  INSERT, the second INSERT throws and that request does not answer 409.
\<close>

theorem racing_signup_counterexample:
  "fst (run (clock 2) (clock 3) [A, B, A, B]
         (Waiting (post_request ''/api/auth/signup'' None (Some (credentials ''eve@example.com'' ''sesame''))),
          Waiting (post_request ''/api/auth/signup'' None (Some (credentials ''eve@example.com'' ''another''))),
          users_env [])) = Done created
   \<and> fst (snd (run (clock 2) (clock 3) [A, B, A, B]
         (Waiting (post_request ''/api/auth/signup'' None (Some (credentials ''eve@example.com'' ''sesame''))),
          Waiting (post_request ''/api/auth/signup'' None (Some (credentials ''eve@example.com'' ''another''))),
          users_env []))) = Done (Inl (D1_ERROR ''UNIQUE constraint failed: users.email''))
   \<and> Inl (D1_ERROR ''UNIQUE constraint failed: users.email'') \<noteq> conflict"
  by (simp add: advance_def signup_lookup_def signup_insert_def users_insert_def
      users_first_by_email_def parseJSON_def Let_def created_def conflict_def
      post_request_def credentials_def users_env_def ada_def bob_def clock_def regex_defs
      bcrypt_hash_def next_rowid_def)



text \<open>
  C5. For a well-formed email that is not registered and a password of at least 6
  characters, signup answers 201 and a login with the same credentials then answers 200
  with a token that the token service verifies: \<^verbatim>\<open>verifyToken\<close> returns claims that carry
  the email and the id of the new user row.
\<close>

theorem signup_then_login:
  assumes "rq_path rq1 = ''/api/auth/signup''" and "rq_method rq1 = ''POST''"
    and "rq_json rq1 = Some d1" and "member d1 ''email'' = Some (JStr e)"
    and "member d1 ''password'' = Some (JStr pw)"
    and "rq_path rq2 = ''/api/auth/login''" and "rq_method rq2 = ''POST''"
    and "rq_json rq2 = Some d2" and "member d2 ''email'' = Some (JStr e)"
    and "member d2 ''password'' = Some (JStr pw)"
    and "validateEmail (Some (JStr e))" and "validatePassword (Some (JStr pw))"
    and "e \<notin> set (map u_email (users (IH_DB env)))"
  shows "\<exists>env1 tok p.
           fetch rt1 rq1 env = (Inr (createJsonResponse (message_body ''User created'') 201), env1)
         \<and> fetch rt2 rq2 env1 = (Inr (createJsonResponse (JObj [(''token'', JStr tok)]) 200), env1)
         \<and> jwt_verify (now rt2) tok (JWT_SECRET env1)
         \<and> token_verify (now rt2) tok (JWT_SECRET env1) = Inr p
         \<and> verifyToken rt2 (''Bearer '' @ tok) env1 = Some p
         \<and> p_email p = e
         \<and> map_option u_id (users_first_by_email (IH_DB env1) e) = Some (p_id p)"
proof -
  let ?i = "next_rowid (map u_id (users (IH_DB env))) (users_seq (IH_DB env))"
  let ?u = "\<lparr>u_id = ?i, u_email = e, u_password = bcrypt_hash pw 10 (salt rt1),
             u_created_at = current_timestamp rt1\<rparr>"
  let ?env1 = "env\<lparr>IH_DB := (IH_DB env)\<lparr>users := users (IH_DB env) @ [?u], users_seq := ?i\<rparr>\<rparr>"
  let ?p = "\<lparr>p_id = ?i, p_email = e, p_exp = now rt2 div 1000 + 7 * 24 * 60 * 60\<rparr>"
  let ?tok = "jwt_sign ?p (JWT_SECRET env)"
  have re: "regex_test email_re e" and len: "6 \<le> length pw"
    using assms(11,12) by simp_all
  have s: "fetch rt1 rq1 env = (Inr (createJsonResponse (message_body ''User created'') 201), ?env1)"
    using signup_valid_fresh [OF assms(3,4,5) re len assms(13), of rt1] assms(1,2)
    by (simp add: fetch_def)
  have f: "users_first_by_email (IH_DB ?env1) e = Some ?u"
  proof -
    have "find (\<lambda>u. u_email u = e) (users (IH_DB env)) = None"
      using assms(13) by (auto simp: find_None_iff)
    then show ?thesis
      by (simp add: users_first_by_email_def find_snoc)
  qed
  have c: "bcrypt_compare pw (u_password ?u)"
    by (simp add: bcrypt_hash_def)
  have l: "fetch rt2 rq2 ?env1 = (Inr (createJsonResponse (JObj [(''token'', JStr ?tok)]) 200), ?env1)"
    using login_valid_known [OF assms(8,9,10) re len f c, of rt2] assms(6,7)
    by (simp add: fetch_def)
  have fresh: "now rt2 < p_exp ?p * 1000" by simp
  have v: "token_verify (now rt2) ?tok (JWT_SECRET ?env1) = Inr ?p"
    using fresh by (simp add: token_verify_sign)
  have j: "jwt_verify (now rt2) ?tok (JWT_SECRET ?env1)"
    using v by (simp add: jwt_verify_def)
  have b: "verifyToken rt2 (''Bearer '' @ ?tok) ?env1 = Some ?p"
    using fresh verifyToken_bearer [of rt2 ?p "JWT_SECRET env" ?env1] by simp
  have m: "map_option u_id (users_first_by_email (IH_DB ?env1) e) = Some (p_id ?p)"
    using f by simp
  have e: "p_email ?p = e" by simp
  from s l j v b e m show ?thesis by blast
qed

theorem signup_then_login_witness:
  "validateEmail (Some (JStr ''eve@example.com'')) \<and> validatePassword (Some (JStr ''sesame'')) 
   \<and> ''eve@example.com'' \<notin> set (map u_email (users (IH_DB (users_env []))))
   \<and> (\<exists>env1 tok p.
           fetch (clock 5000) (post_request ''/api/auth/signup'' None (Some (credentials ''eve@example.com'' ''sesame''))) (users_env [])
             = (Inr (createJsonResponse (message_body ''User created'') 201), env1)
         \<and> fetch (clock 9000) (post_request ''/api/auth/login'' None (Some (credentials ''eve@example.com'' ''sesame''))) env1
             = (Inr (createJsonResponse (JObj [(''token'', JStr tok)]) 200), env1)
         \<and> jwt_verify 9000 tok (JWT_SECRET env1)
         \<and> verifyToken (clock 9000) (''Bearer '' @ tok) env1 = Some p
         \<and> p_email p = ''eve@example.com'' \<and> p_id p = 3)"
proof -
  let ?d = "credentials ''eve@example.com'' ''sesame''"
  let ?rq1 = "post_request ''/api/auth/signup'' None (Some ?d)"
  let ?rq2 = "post_request ''/api/auth/login'' None (Some ?d)"
  have a1: "rq_path ?rq1 = ''/api/auth/signup''" and a2: "rq_method ?rq1 = ''POST''"
    and a3: "rq_json ?rq1 = Some ?d" and a4: "member ?d ''email'' = Some (JStr ''eve@example.com'')"
    and a5: "member ?d ''password'' = Some (JStr ''sesame'')"
    and a6: "rq_path ?rq2 = ''/api/auth/login''" and a7: "rq_method ?rq2 = ''POST''"
    and a8: "rq_json ?rq2 = Some ?d"
    by (simp_all add: post_request_def credentials_def)
  have a11: "validateEmail (Some (JStr ''eve@example.com''))"
    by (simp add: regex_defs)
  have a12: "validatePassword (Some (JStr ''sesame''))" by simp
  have a13: "''eve@example.com'' \<notin> set (map u_email (users (IH_DB (users_env []))))"
    by (simp add: example_defs)
  from signup_then_login [OF a1 a2 a3 a4 a5 a6 a7 a8 a4 a5 a11 a12 a13, of "clock 5000" "clock 9000"]
  obtain env1 tok p where
    s: "fetch (clock 5000) ?rq1 (users_env []) = (Inr (createJsonResponse (message_body ''User created'') 201), env1)"
    and l: "fetch (clock 9000) ?rq2 env1 = (Inr (createJsonResponse (JObj [(''token'', JStr tok)]) 200), env1)"
    and j: "jwt_verify (now (clock 9000)) tok (JWT_SECRET env1)"
    and b: "verifyToken (clock 9000) (''Bearer '' @ tok) env1 = Some p"
    and e: "p_email p = ''eve@example.com''"
    and m: "map_option u_id (users_first_by_email (IH_DB env1) ''eve@example.com'') = Some (p_id p)"
    by blast
  have j': "jwt_verify 9000 tok (JWT_SECRET env1)"
    using j by (simp add: clock_def)
  have "fetch (clock 5000) ?rq1 (users_env []) =
          (Inr (createJsonResponse (message_body ''User created'') 201),
           (users_env [])\<lparr>IH_DB := (IH_DB (users_env []))\<lparr>users := [ada, bob,
               \<lparr>u_id = 3, u_email = ''eve@example.com'', u_password = Bcrypt 10 ''salt'' ''sesame'',
                 u_created_at = ''2025-09-10 12:00:00''\<rparr>], users_seq := 3\<rparr>\<rparr>)"
    using signup_valid_fresh [OF a3 a4 a5 _ _ a13, of "clock 5000"] a11
    by (simp add: fetch_def post_request_def users_env_def ada_def bob_def clock_def
        next_rowid_def bcrypt_hash_def)
  with s have "env1 = (users_env [])\<lparr>IH_DB := (IH_DB (users_env []))\<lparr>users := [ada, bob,
               \<lparr>u_id = 3, u_email = ''eve@example.com'', u_password = Bcrypt 10 ''salt'' ''sesame'',
                 u_created_at = ''2025-09-10 12:00:00''\<rparr>], users_seq := 3\<rparr>\<rparr>"
    by simp
  with m have i: "p_id p = 3"
    by (simp add: users_first_by_email_def ada_def bob_def)
  from a11 a12 a13 s l j' b e i show ?thesis by blast
qed

text \<open>
  C6 (amended). An authenticated \<^verbatim>\<open>POST /api/transactions\<close> is rejected with 400
  exactly when \<^verbatim>\<open>validateTransaction\<close> fails, and then no row is written; it fails
  exactly when the body is not a JSON object whose \<^verbatim>\<open>date\<close> is a string that is
  not blank, whose \<^verbatim>\<open>amount\<close> is a number and whose \<^verbatim>\<open>type\<close> is a string that is
  not blank.
\<close>

theorem create_transaction_validation:
  assumes "rq_path req = ''/api/transactions''" and "rq_method req = ''POST''"
    and "verifyToken rt (or_default (rq_authorization req) []) env = Some decoded"
  shows "(fst (fetch rt req env) = Inr (createJsonResponse (error_body ''Invalid transaction data'') 400)
            \<longleftrightarrow> \<not> validateTransaction (parseJSON req))
       \<and> (\<not> validateTransaction (parseJSON req) \<longrightarrow> snd (fetch rt req env) = env)
       \<and> (validateTransaction (parseJSON req) \<longleftrightarrow>
            (\<exists>d s x ty. rq_json req = Some d
               \<and> member d ''date'' = Some (JStr s) \<and> trim s \<noteq> []
               \<and> member d ''amount'' = Some (JNum x)
               \<and> member d ''type'' = Some (JStr ty) \<and> trim ty \<noteq> []))"
proof (intro conjI)
  show "fst (fetch rt req env) = Inr (createJsonResponse (error_body ''Invalid transaction data'') 400)
            \<longleftrightarrow> \<not> validateTransaction (parseJSON req)"
    by (simp add: fetch_create [OF assms] create_transaction_status)
  show "\<not> validateTransaction (parseJSON req) \<longrightarrow> snd (fetch rt req env) = env"
    by (simp add: fetch_create [OF assms] create_transaction_def)
  show "validateTransaction (parseJSON req) \<longleftrightarrow>
            (\<exists>d s x ty. rq_json req = Some d
               \<and> member d ''date'' = Some (JStr s) \<and> trim s \<noteq> []
               \<and> member d ''amount'' = Some (JNum x)
               \<and> member d ''type'' = Some (JStr ty) \<and> trim ty \<noteq> [])"
  proof (cases "rq_json req")
    case None
    then show ?thesis by (simp add: parseJSON_def validateTransaction_def)
  next
    case (Some d)
    then show ?thesis by (simp add: parseJSON_def validateTransaction_iff)
  qed
qed

theorem create_transaction_validation_witness:
  "verifyToken (clock 0) (or_default (bearer ada) []) (users_env [])
      = Some \<lparr>p_id = 1, p_email = ''ada@example.com'', p_exp = 604800\<rparr>
   \<and> \<not> validateTransaction (JObj [(''date'', JStr ''2025-09-01''), (''amount'', JStr ''12''), (''type'', JStr ''income'')])
   \<and> fetch (clock 0) (post_request ''/api/transactions'' (bearer ada)
        (Some (JObj [(''date'', JStr ''2025-09-01''), (''amount'', JStr ''12''), (''type'', JStr ''income'')])))
        (users_env [])
      = (Inr (createJsonResponse (error_body ''Invalid transaction data'') 400), users_env [])"
proof -
  let ?d = "JObj [(''date'', JStr ''2025-09-01''), (''amount'', JStr ''12''), (''type'', JStr ''income'')]"
  let ?rq = "post_request ''/api/transactions'' (bearer ada) (Some ?d)"
  have a1: "rq_path ?rq = ''/api/transactions''" and a2: "rq_method ?rq = ''POST''"
    by (simp_all add: post_request_def)
  have a3: "verifyToken (clock 0) (or_default (rq_authorization ?rq) []) (users_env [])
      = Some \<lparr>p_id = 1, p_email = ''ada@example.com'', p_exp = 604800\<rparr>"
    using verifyToken_example [of 0 ada "[]"] by (simp add: post_request_def ada_def)
  have n: "\<not> validateTransaction (parseJSON ?rq)"
    by (simp add: parseJSON_def post_request_def validateTransaction_def)
  from create_transaction_validation [OF a1 a2 a3] n
  have "fst (fetch (clock 0) ?rq (users_env [])) = Inr (createJsonResponse (error_body ''Invalid transaction data'') 400)"
    and "snd (fetch (clock 0) ?rq (users_env [])) = users_env []"
    by blast+
  then have "fetch (clock 0) ?rq (users_env [])
      = (Inr (createJsonResponse (error_body ''Invalid transaction data'') 400), users_env [])"
    by (simp add: prod_eq_iff)
  with a3 n show ?thesis
    by (simp add: post_request_def parseJSON_def)
qed

text \<open>
  C6 as stated fails: a date that is no calendar date and a type that is neither
  \<^verbatim>\<open>income\<close> nor \<^verbatim>\<open>expense\<close> are accepted, and the row is written.
\<close>

theorem create_transaction_unchecked_counterexample:
  "fetch (clock 0) (post_request ''/api/transactions'' (bearer ada)
        (Some (JObj [(''date'', JStr ''not-a-date''), (''amount'', JNum 12.5), (''type'', JStr ''gift'')])))
        (users_env [])
      = (Inr (createJsonResponse (message_body ''Transaction added'') 201),
         users_env [txn 1 1 ''not-a-date'' 12.5 ''gift''])
   \<and> ''gift'' \<noteq> ''income'' \<and> ''gift'' \<noteq> ''expense''"
  using verifyToken_example [of 0 ada "[]"]
  by (simp add: fetch_def post_request_def create_transaction_def parseJSON_def
      validateTransaction_def trim_def is_space_def transactions_insert_def next_rowid_def
      users_env_def txn_def ada_def bob_def clock_def)

text \<open>
  C7 (amended). On an authenticated \<^verbatim>\<open>GET /api/transactions\<close>: an absent
  \<^verbatim>\<open>limit\<close> is 50; a \<^verbatim>\<open>limit\<close> that parses to more than 100 is 100; an absent
  \<^verbatim>\<open>offset\<close> is 0; whenever limit and offset parse to numbers strictly between
  \<open>- (2 ^ 63)\<close> and \<open>2 ^ 63\<close> (the doubles the store takes as integers) the request
  succeeds with 200 and echoes both, also with a negative offset, which the store reads
  as no offset.
\<close>

theorem pagination_parameters:
  assumes "rq_path req = ''/api/transactions''" and "rq_method req = ''GET''"
    and "verifyToken rt (or_default (rq_authorization req) []) env = Some decoded"
  shows "(searchParams_get req ''limit'' = None \<longrightarrow> limit_of req = Finite 50)
       \<and> (\<forall>s n. searchParams_get req ''limit'' = Some s \<and> parseInt s = Finite n \<and> 100 < n
             \<longrightarrow> limit_of req = Finite 100)
       \<and> (\<forall>s. searchParams_get req ''limit'' = Some s \<and> parseInt s = Infinity
             \<longrightarrow> limit_of req = Finite 100)
       \<and> (searchParams_get req ''offset'' = None \<longrightarrow> offset_of req = Finite 0)
       \<and> (\<forall>l off. limit_of req = Finite l \<and> offset_of req = Finite off
               \<and> - (2 ^ 63) < l \<and> - (2 ^ 63) < off \<and> off < 2 ^ 63 \<longrightarrow>
             fetch rt req env =
               (Inr (createJsonResponse
                  (transactions_body
                     (limit_offset l off
                        (order_by_date_desc
                           (filter (\<lambda>t. t_user_id t = p_id decoded
                                \<and> date_from (given (searchParams_get req ''startDate'')) t
                                \<and> date_until (given (searchParams_get req ''endDate'')) t)
                              (transactions (IH_DB env))))) l off) 200), env))
       \<and> (\<forall>l off (rows :: txn_row list). off < 0 \<longrightarrow> limit_offset l off rows = limit_offset l 0 rows)"
proof (intro conjI allI impI)
  assume "searchParams_get req ''limit'' = None"
  then show "limit_of req = Finite 50"
    by (simp add: limit_of_def default_limit)
next
  fix s n
  assume h: "searchParams_get req ''limit'' = Some s \<and> parseInt s = Finite n \<and> 100 < n"
  then have "s \<noteq> []" using parseInt_empty by auto
  with h show "limit_of req = Finite 100"
    by (simp add: limit_of_def)
next
  fix s
  assume h: "searchParams_get req ''limit'' = Some s \<and> parseInt s = Infinity"
  then have "s \<noteq> []" using parseInt_empty by auto
  with h show "limit_of req = Finite 100"
    by (simp add: limit_of_def)
next
  assume "searchParams_get req ''offset'' = None"
  then show "offset_of req = Finite 0"
    by (simp add: offset_of_def default_offset)
next
  fix l off
  assume "limit_of req = Finite l \<and> offset_of req = Finite off
               \<and> - (2 ^ 63) < l \<and> - (2 ^ 63) < off \<and> off < 2 ^ 63"
  then show "fetch rt req env =
               (Inr (createJsonResponse
                  (transactions_body
                     (limit_offset l off
                        (order_by_date_desc
                           (filter (\<lambda>t. t_user_id t = p_id decoded
                                \<and> date_from (given (searchParams_get req ''startDate'')) t
                                \<and> date_until (given (searchParams_get req ''endDate'')) t)
                              (transactions (IH_DB env))))) l off) 200), env)"
    by (simp add: fetch_list [OF assms] list_transactions_eval)
next
  fix l off :: int and rows :: "txn_row list"
  assume "off < 0"
  then show "limit_offset l off rows = limit_offset l 0 rows"
    by (simp add: limit_offset_def)
qed

theorem pagination_parameters_witness:
  "limit_of (get_request ''/api/transactions'' (bearer ada) [(''limit'', ''250''), (''offset'', ''-5'')]) = Finite 100
   \<and> offset_of (get_request ''/api/transactions'' (bearer ada) [(''limit'', ''250''), (''offset'', ''-5'')]) = Finite (- 5)
   \<and> limit_of (get_request ''/api/transactions'' (bearer ada) []) = Finite 50
   \<and> offset_of (get_request ''/api/transactions'' (bearer ada) []) = Finite 0
   \<and> fetch (clock 0) (get_request ''/api/transactions'' (bearer ada) [(''limit'', ''250''), (''offset'', ''-5'')])
        (users_env [txn 1 1 ''2025-09-01'' 1200 ''income''])
      = (Inr (createJsonResponse (transactions_body [txn 1 1 ''2025-09-01'' 1200 ''income''] 100 (- 5)) 200),
         users_env [txn 1 1 ''2025-09-01'' 1200 ''income''])"
proof -
  let ?rq = "get_request ''/api/transactions'' (bearer ada) [(''limit'', ''250''), (''offset'', ''-5'')]"
  let ?plain = "get_request ''/api/transactions'' (bearer ada) []"
  let ?env = "users_env [txn 1 1 ''2025-09-01'' 1200 ''income'']"
  let ?p = "\<lparr>p_id = 1, p_email = ''ada@example.com'', p_exp = 604800\<rparr>"
  have a1: "rq_path ?rq = ''/api/transactions''" and a2: "rq_method ?rq = ''GET''"
    and b1: "rq_path ?plain = ''/api/transactions''" and b2: "rq_method ?plain = ''GET''"
    by (simp_all add: get_request_def)
  have a3: "verifyToken (clock 0) (or_default (rq_authorization ?rq) []) ?env = Some ?p"
    and b3: "verifyToken (clock 0) (or_default (rq_authorization ?plain) []) ?env = Some ?p"
    using bearer_ada_0 [of "[txn 1 1 ''2025-09-01'' 1200 ''income'']"]
    by (simp_all add: get_request_def)
  have s: "searchParams_get ?rq ''limit'' = Some ''250''"
    "searchParams_get ?plain ''limit'' = None" "searchParams_get ?plain ''offset'' = None"
    by (simp_all add: searchParams_get_def get_request_def)
  have s': "parseInt ''250'' = Finite 250"
    by (simp add: parse_defs)
  have o: "offset_of ?rq = Finite (- 5)"
    by (simp add: offset_of_def searchParams_get_def get_request_def parse_defs)
  note t = pagination_parameters [OF a1 a2 a3]
  note t0 = pagination_parameters [OF b1 b2 b3]
  have l: "limit_of ?rq = Finite 100"
    using t s s' by simp
  have l0: "limit_of ?plain = Finite 50" and o0: "offset_of ?plain = Finite 0"
    using t0 s by simp_all
  have "fetch (clock 0) ?rq ?env =
          (Inr (createJsonResponse
                  (transactions_body
                     (limit_offset 100 (- 5)
                        (order_by_date_desc
                           (filter (\<lambda>t. t_user_id t = p_id ?p
                                \<and> date_from (given (searchParams_get ?rq ''startDate'')) t
                                \<and> date_until (given (searchParams_get ?rq ''endDate'')) t)
                              (transactions (IH_DB ?env))))) 100 (- 5)) 200), ?env)"
    using t l o by simp
  then have "fetch (clock 0) ?rq ?env =
      (Inr (createJsonResponse (transactions_body [txn 1 1 ''2025-09-01'' 1200 ''income''] 100 (- 5)) 200), ?env)"
    by (simp add: searchParams_get_def get_request_def store_defs users_env_def txn_def)
  with l o l0 o0 show ?thesis by simp
qed

text \<open>
  C7 as stated fails in its last part: a negative offset is not rejected, the request
  succeeds with 200.
\<close>

theorem negative_offset_counterexample:
  "offset_of (get_request ''/api/transactions'' (bearer ada) [(''offset'', ''-5'')]) = Finite (- 5)
   \<and> fetch (clock 0) (get_request ''/api/transactions'' (bearer ada) [(''offset'', ''-5'')])
        (users_env [txn 1 1 ''2025-09-01'' 1200 ''income''])
      = (Inr (createJsonResponse (transactions_body [txn 1 1 ''2025-09-01'' 1200 ''income''] 50 (- 5)) 200),
         users_env [txn 1 1 ''2025-09-01'' 1200 ''income''])"
  using bearer_ada_0 [of "[txn 1 1 ''2025-09-01'' 1200 ''income'']"]
  by (simp add: fetch_def list_transactions_def limit_of_def offset_of_def searchParams_get_def
      get_request_def parse_defs store_defs users_env_def txn_def)

text \<open>
  C8 (amended). On an authenticated \<^verbatim>\<open>GET /api/transactions\<close> with a
  \<^verbatim>\<open>startDate\<close> strictly greater, as text, than a non-empty \<^verbatim>\<open>endDate\<close>, and limit
  and offset that parse to numbers strictly between \<open>- (2 ^ 63)\<close> and \<open>2 ^ 63\<close> (the
  doubles the store takes as integers), the request succeeds with 200 and an empty
  transaction list: the bounds are used as given, not swapped, and nothing is rejected.
\<close>

theorem inverted_date_range:
  assumes "rq_path req = ''/api/transactions''" and "rq_method req = ''GET''"
    and "verifyToken rt (or_default (rq_authorization req) []) env = Some decoded"
    and "searchParams_get req ''startDate'' = Some s" and "searchParams_get req ''endDate'' = Some e"
    and "e \<noteq> []" and "e < s"
    and "limit_of req = Finite l" and "offset_of req = Finite off"
    and "- (2 ^ 63) < l" and "- (2 ^ 63) < off" and "off < 2 ^ 63"
  shows "fetch rt req env = (Inr (createJsonResponse (transactions_body [] l off) 200), env)"
proof -
  have "s \<noteq> []" using assms(7) by auto
  then have g: "given (searchParams_get req ''startDate'') = Some s"
    "given (searchParams_get req ''endDate'') = Some e"
    using assms(4,5,6) by simp_all
  have "filter (\<lambda>t. t_user_id t = p_id decoded \<and> date_from (Some s) t \<and> date_until (Some e) t)
          (transactions (IH_DB env)) = []"
    using assms(7) by (auto simp: filter_empty_conv date_from_def date_until_def)
  then show ?thesis
    using list_transactions_eval [OF assms(8,9,10,11,12), of decoded env]
    by (simp add: fetch_list [OF assms(1,2,3)] g order_by_date_desc_def limit_offset_def)
qed

theorem inverted_date_range_witness:
  "''2025-09-01'' < ''2025-09-10''
   \<and> fetch (clock 0) (get_request ''/api/transactions'' (bearer ada)
          [(''startDate'', ''2025-09-10''), (''endDate'', ''2025-09-01'')])
        (users_env [txn 1 1 ''2025-09-03'' (- 150) ''expense''])
      = (Inr (createJsonResponse (transactions_body [] 50 0) 200),
         users_env [txn 1 1 ''2025-09-03'' (- 150) ''expense''])"
proof -
  let ?rq = "get_request ''/api/transactions'' (bearer ada)
          [(''startDate'', ''2025-09-10''), (''endDate'', ''2025-09-01'')]"
  let ?env = "users_env [txn 1 1 ''2025-09-03'' (- 150) ''expense'']"
  let ?p = "\<lparr>p_id = 1, p_email = ''ada@example.com'', p_exp = 604800\<rparr>"
  have a1: "rq_path ?rq = ''/api/transactions''" and a2: "rq_method ?rq = ''GET''"
    by (simp_all add: get_request_def)
  have a3: "verifyToken (clock 0) (or_default (rq_authorization ?rq) []) ?env = Some ?p"
    using bearer_ada_0 [of "[txn 1 1 ''2025-09-03'' (- 150) ''expense'']"]
    by (simp add: get_request_def)
  have a4: "searchParams_get ?rq ''startDate'' = Some ''2025-09-10''"
    and a5: "searchParams_get ?rq ''endDate'' = Some ''2025-09-01''"
    by (simp_all add: searchParams_get_def get_request_def)
  have a6: "''2025-09-01'' \<noteq> []" and a7: "''2025-09-01'' < ''2025-09-10''"
    by simp_all
  have a8: "limit_of ?rq = Finite 50" and a9: "offset_of ?rq = Finite 0"
    by (simp_all add: limit_of_def offset_of_def searchParams_get_def get_request_def parse_defs)
  have a10: "- (2 ^ 63) < (50::int)" and a11: "- (2 ^ 63) < (0::int)" and a12: "(0::int) < 2 ^ 63"
    by simp_all
  from inverted_date_range [OF a1 a2 a3 a4 a5 a6 a7 a8 a9 a10 a11 a12] a7
  show ?thesis by simp
qed

text \<open>
  C8 as stated fails: with \<^verbatim>\<open>startDate\<close> after \<^verbatim>\<open>endDate\<close> the request is not
  rejected, it succeeds with 200 and an empty list.
\<close>

theorem inverted_date_range_counterexample:
  "''2025-09-01'' < ''2025-09-10''
   \<and> fetch (clock 0) (get_request ''/api/transactions'' (bearer ada)
          [(''startDate'', ''2025-09-10''), (''endDate'', ''2025-09-01'')])
        (users_env [txn 1 1 ''2025-09-03'' (- 150) ''expense''])
      = (Inr (createJsonResponse (transactions_body [] 50 0) 200),
         users_env [txn 1 1 ''2025-09-03'' (- 150) ''expense''])
   \<and> status (createJsonResponse (transactions_body [] 50 0) 200) = 200"
  using bearer_ada_0 [of "[txn 1 1 ''2025-09-03'' (- 150) ''expense'']"]
  by (simp add: fetch_def list_transactions_def limit_of_def offset_of_def searchParams_get_def
      get_request_def parse_defs store_defs users_env_def txn_def createJsonResponse_def)







end
